theory Spec2Isabelle
  imports Complex_Main "HOL-Library.List_Lexorder" "HOL-Library.Multiset"
begin

chapter \<open>The model\<close>

text \<open>
  The browser fingerprinting library \<open>bff.js\<close>: the three engines
  \<open>AdvancedBrowserFingerprint\<close>, \<open>CSSFingerprint\<close> and \<open>AdvancedCSSFingerprint\<close>, each
  with a \<open>generate()\<close> that runs probes against the host and a \<open>getHash()\<close> that folds
  the stable part of the result into a 32-bit hash, and \<open>CombinedCSSFingerprint\<close>, which
  hashes the hashes of the two CSS engines. The model follows the source function by
  function; the fragment of JavaScript that these functions use is modelled first.
\<close>

section \<open>JavaScript strings and integer renderings\<close>

text \<open>
  A JavaScript string is a sequence of UTF-16 code units. It is modelled as the list of
  its code units (\<open>charCodeAt\<close> reads one element), each a natural number; a real string
  only holds units below \<open>2 ^ 16\<close>, and nothing below depends on that bound. The default
  order of \<open>Array.prototype.sort\<close> on strings is the lexicographic order on these lists.
  The ASCII literals of the source are written \<open>js ''...''\<close>.
\<close>

type_synonym jsstring = "nat list"

definition js :: "string \<Rightarrow> jsstring" where
  "js s = map of_char s"

text \<open>Digits of \<open>Number.prototype.toString(radix)\<close>: \<open>0-9\<close>, then lowercase \<open>a-z\<close>.\<close>

definition digit_char :: "nat \<Rightarrow> nat" where
  "digit_char d = (if d < 10 then 48 + d else 87 + d)"

function radix_digits :: "nat \<Rightarrow> nat \<Rightarrow> jsstring" where
  "radix_digits b n =
     (if b < 2 \<or> n < b then [digit_char n]
      else radix_digits b (n div b) @ [digit_char (n mod b)])"
  by pat_completeness auto
termination
  by (relation "measure (\<lambda>(b, n). n)") auto

declare radix_digits.simps [simp del]

text \<open>
  \<open>x.toString(radix)\<close> for an integral Number \<open>x\<close>: a minus sign for a negative value, no
  prefix, no padding.
\<close>

definition toString_radix :: "nat \<Rightarrow> int \<Rightarrow> jsstring" where
  "toString_radix b x =
     (if x < 0 then 45 # radix_digits b (nat (- x)) else radix_digits b (nat x))"

section \<open>The hash loop\<close>

text \<open>
  The loop at the end of every \<open>getHash\<close> and of \<open>getCombinedHash\<close> (four textual copies
  in the source):
  \<^verbatim>\<open>
  let hash = 5381;
  for (let i = 0; i < str.length; i++) {
      hash = ((hash << 5) + hash) + str.charCodeAt(i);
      hash = hash >>> 0;
  }
  return hash.toString(16);
  \<close>
  \<open>hash\<close> is a Number holding an integer. \<open>hash << 5\<close> converts its left operand with
  ToInt32 and yields a signed 32-bit integer; \<open>+\<close> is the addition of Numbers, exact here
  since every operand is an integer far below \<open>2 ^ 53\<close>; \<open>>>> 0\<close> converts with ToUint32.
\<close>

definition ToInt32 :: "int \<Rightarrow> int" where
  "ToInt32 x = (let m = x mod 2 ^ 32 in if m \<ge> 2 ^ 31 then m - 2 ^ 32 else m)"

definition ToUint32 :: "int \<Rightarrow> int" where
  "ToUint32 x = x mod 2 ^ 32"

definition js_shl :: "int \<Rightarrow> nat \<Rightarrow> int" where
  "js_shl x n = ToInt32 (ToInt32 x * 2 ^ (n mod 32))"

definition js_ushr0 :: "int \<Rightarrow> int" where
  "js_ushr0 x = ToUint32 x"

definition hash_step :: "int \<Rightarrow> nat \<Rightarrow> int" where
  "hash_step hash c = js_ushr0 ((js_shl hash 5 + hash) + int c)"

definition hash_loop :: "jsstring \<Rightarrow> int" where
  "hash_loop str = foldl hash_step 5381 str"

definition hash_string :: "jsstring \<Rightarrow> jsstring" where
  "hash_string str = toString_radix 16 (hash_loop str)"

text \<open>
  The reference the specification names: djb2, \<open>h = 5381\<close>, then
  \<open>h = (33 * h + c) mod 2 ^ 32\<close> for each character code, rendered in lowercase
  hexadecimal.
\<close>

definition djb2_reference :: "jsstring \<Rightarrow> nat" where
  "djb2_reference str = foldl (\<lambda>h c. (33 * h + c) mod 2 ^ 32) 5381 str"

fun hex_digit_reference :: "nat \<Rightarrow> char" where
  "hex_digit_reference d = ''0123456789abcdef'' ! d"

function hex_reference :: "nat \<Rightarrow> string" where
  "hex_reference n =
     (if n < 16 then [hex_digit_reference n]
      else hex_reference (n div 16) @ [hex_digit_reference (n mod 16)])"
  by pat_completeness auto
termination
  by (relation "measure (\<lambda>n. n)") auto

declare hex_reference.simps [simp del]

section \<open>JavaScript values\<close>

text \<open>
  The values a fingerprint holds are plain data: \<open>undefined\<close>, \<open>null\<close>, booleans,
  Numbers, strings, arrays and objects with own data properties (no functions, getters,
  holes, cycles or changed prototypes), and no array or object is shared between two
  places of a value, as in the records that the probes build. An object is the list of
  its own properties in the order \<open>Object.keys\<close> and \<open>JSON.stringify\<close> enumerate them.

  A finite Number is modelled by its exact rational value (\<open>-0\<close> is identified with
  \<open>0\<close>, from which no operation below distinguishes it). The decimal rendering of an
  integral Number of magnitude below \<open>2 ^ 53\<close> is its digits; the shortest round-trip
  rendering that \<open>Number::toString\<close> gives every other finite Number (the larger
  integers too, whose last digits it replaces by zeros) is a property of IEEE doubles
  and is left as the parameter \<open>F\<close> of every operation that renders a Number.
\<close>

datatype jsnum = Fin rat | NaN | PosInf | NegInf

datatype jsval =
    JUndefined
  | JNull
  | JBool bool
  | JNum jsnum
  | JStr jsstring
  | JArr "jsval list"
  | JObj "(jsstring \<times> jsval) list"

datatype js_error = TypeError | HostError

type_synonym 'a result = "js_error + 'a"

definition bind_result :: "'a result \<Rightarrow> ('a \<Rightarrow> 'b result) \<Rightarrow> 'b result" where
  "bind_result r f = (case r of Inl e \<Rightarrow> Inl e | Inr x \<Rightarrow> f x)"

fun map_result :: "('a \<Rightarrow> 'b result) \<Rightarrow> 'a list \<Rightarrow> 'b list result" where
  "map_result f [] = Inr []"
| "map_result f (x # xs) =
     bind_result (f x) (\<lambda>y. bind_result (map_result f xs) (\<lambda>ys. Inr (y # ys)))"

definition is_integral :: "rat \<Rightarrow> bool" where
  "is_integral q = (of_int \<lfloor>q\<rfloor> = q)"

definition Number_toString :: "(rat \<Rightarrow> jsstring) \<Rightarrow> jsnum \<Rightarrow> jsstring" where
  "Number_toString F n =
     (case n of
        NaN \<Rightarrow> js ''NaN''
      | PosInf \<Rightarrow> js ''Infinity''
      | NegInf \<Rightarrow> js ''-Infinity''
      | Fin q \<Rightarrow> if is_integral q \<and> \<bar>q\<bar> < 2 ^ 53 then toString_radix 10 \<lfloor>q\<rfloor> else F q)"

text \<open>
  \<open>Number.prototype.toFixed(f)\<close>: the sign, then the integer nearest to
  \<open>x * 10 ^ f\<close> (the larger one on a tie), padded with zeros to \<open>f + 1\<close> digits and split
  by a point before the last \<open>f\<close> digits.
\<close>

definition Number_toFixed :: "(rat \<Rightarrow> jsstring) \<Rightarrow> nat \<Rightarrow> jsnum \<Rightarrow> jsstring" where
  "Number_toFixed F f n =
     (case n of
        Fin q \<Rightarrow>
          (let s = (if q < 0 then js ''-'' else []);
               x = \<bar>q\<bar>
           in if x \<ge> 10 ^ 21 then s @ Number_toString F (Fin x)
              else
                (let k = nat \<lfloor>x * 10 ^ f + 1 / 2\<rfloor>;
                     m = radix_digits 10 k;
                     m' = (if 0 < f \<and> length m \<le> f
                           then replicate (f + 1 - length m) 48 @ m else m);
                     a = take (length m' - f) m';
                     b = drop (length m' - f) m'
                 in s @ (if 0 < f then a @ js ''.'' @ b else m')))
      | _ \<Rightarrow> Number_toString F n)"

fun nullish :: "jsval \<Rightarrow> bool" where
  "nullish JUndefined = True"
| "nullish JNull = True"
| "nullish _ = False"

fun is_undefined :: "jsval \<Rightarrow> bool" where
  "is_undefined JUndefined = True"
| "is_undefined _ = False"

text \<open>Truthiness (ToBoolean) and the operator \<open>||\<close>.\<close>

fun truthy :: "jsval \<Rightarrow> bool" where
  "truthy JUndefined = False"
| "truthy JNull = False"
| "truthy (JBool b) = b"
| "truthy (JNum n) = (case n of Fin q \<Rightarrow> q \<noteq> 0 | NaN \<Rightarrow> False | _ \<Rightarrow> True)"
| "truthy (JStr s) = (s \<noteq> [])"
| "truthy (JArr xs) = True"
| "truthy (JObj kvs) = True"

definition js_or :: "jsval \<Rightarrow> jsval \<Rightarrow> jsval" where
  "js_or a b = (if truthy a then a else b)"

fun join_strings :: "jsstring \<Rightarrow> jsstring list \<Rightarrow> jsstring" where
  "join_strings sep [] = []"
| "join_strings sep [s] = s"
| "join_strings sep (s # t # ss) = s @ sep @ join_strings sep (t # ss)"

text \<open>
  ToString, as a template literal \<open>`${v}`\<close> applies it. An array renders as
  \<open>join(',')\<close> does, with \<open>undefined\<close> and \<open>null\<close> elements empty; a plain object renders
  as \<open>[object Object]\<close>.
\<close>

fun ToString :: "(rat \<Rightarrow> jsstring) \<Rightarrow> jsval \<Rightarrow> jsstring" where
  "ToString F JUndefined = js ''undefined''"
| "ToString F JNull = js ''null''"
| "ToString F (JBool b) = (if b then js ''true'' else js ''false'')"
| "ToString F (JNum n) = Number_toString F n"
| "ToString F (JStr s) = s"
| "ToString F (JArr xs) =
     join_strings (js '','') (map (\<lambda>v. if nullish v then [] else ToString F v) xs)"
| "ToString F (JObj kvs) = js ''[object Object]''"

definition Array_join :: "(rat \<Rightarrow> jsstring) \<Rightarrow> jsstring \<Rightarrow> jsval list \<Rightarrow> jsstring" where
  "Array_join F sep xs =
     join_strings sep (map (\<lambda>v. if nullish v then [] else ToString F v) xs)"

text \<open>
  \<open>Array.prototype.sort()\<close> with no comparator: \<open>undefined\<close> elements go last, the others
  are ordered by the code units of their ToString, and the sort is stable.
\<close>

definition Array_sort :: "(rat \<Rightarrow> jsstring) \<Rightarrow> jsval list \<Rightarrow> jsval list" where
  "Array_sort F xs =
     sort_key (ToString F) (filter (\<lambda>v. \<not> is_undefined v) xs) @ filter is_undefined xs"

text \<open>
  Reading a property. A canonical array index is the decimal rendering of a natural
  number; arrays and strings have \<open>length\<close> and their indices, objects their own
  properties. The property names the source reads are never names inherited from a
  prototype, so a missing own property reads as \<open>undefined\<close>.
\<close>

definition parse_dec :: "jsstring \<Rightarrow> nat" where
  "parse_dec k = foldl (\<lambda>a c. 10 * a + (c - 48)) 0 k"

definition array_index :: "jsstring \<Rightarrow> nat option" where
  "array_index k =
     (if list_all (\<lambda>c. 48 \<le> c \<and> c \<le> 57) k \<and> radix_digits 10 (parse_dec k) = k
      then Some (parse_dec k) else None)"

fun get_prop :: "jsval \<Rightarrow> jsstring \<Rightarrow> jsval" where
  "get_prop (JObj kvs) k = (case map_of kvs k of Some v \<Rightarrow> v | None \<Rightarrow> JUndefined)"
| "get_prop (JArr xs) k =
     (if k = js ''length'' then JNum (Fin (of_nat (length xs)))
      else case array_index k of
             Some i \<Rightarrow> if i < length xs then xs ! i else JUndefined
           | None \<Rightarrow> JUndefined)"
| "get_prop (JStr s) k =
     (if k = js ''length'' then JNum (Fin (of_nat (length s)))
      else case array_index k of
             Some i \<Rightarrow> if i < length s then JStr [s ! i] else JUndefined
           | None \<Rightarrow> JUndefined)"
| "get_prop v k = JUndefined"

text \<open>\<open>v.k\<close> raises a TypeError on \<open>undefined\<close> and \<open>null\<close>; \<open>v?.k\<close> is \<open>undefined\<close> there.\<close>

definition dot :: "jsval \<Rightarrow> jsstring \<Rightarrow> jsval result" where
  "dot v k = (if nullish v then Inl TypeError else Inr (get_prop v k))"

definition optdot :: "jsval \<Rightarrow> jsstring \<Rightarrow> jsval" where
  "optdot v k = (if nullish v then JUndefined else get_prop v k)"

text \<open>The same, for the property names written in the source.\<close>

definition get_field :: "jsval \<Rightarrow> string \<Rightarrow> jsval" where
  "get_field v k = get_prop v (js k)"

definition opt_field :: "jsval \<Rightarrow> string \<Rightarrow> jsval" where
  "opt_field v k = optdot v (js k)"

text \<open>
  Method calls on a value. Plain data has no callable property of its own, so \<open>sort\<close>,
  \<open>join\<close> and \<open>slice\<close> exist on arrays (\<open>slice\<close> also on strings) and \<open>toFixed\<close> on
  Numbers; calling them on anything else is a TypeError.
\<close>

definition call_sort :: "(rat \<Rightarrow> jsstring) \<Rightarrow> jsval \<Rightarrow> jsval result" where
  "call_sort F v = (case v of JArr xs \<Rightarrow> Inr (JArr (Array_sort F xs)) | _ \<Rightarrow> Inl TypeError)"

definition call_join :: "(rat \<Rightarrow> jsstring) \<Rightarrow> jsstring \<Rightarrow> jsval \<Rightarrow> jsval result" where
  "call_join F sep v =
     (case v of JArr xs \<Rightarrow> Inr (JStr (Array_join F sep xs)) | _ \<Rightarrow> Inl TypeError)"

definition call_slice :: "nat \<Rightarrow> nat \<Rightarrow> jsval \<Rightarrow> jsval result" where
  "call_slice i j v =
     (case v of
        JArr xs \<Rightarrow> Inr (JArr (drop i (take j xs)))
      | JStr s \<Rightarrow> Inr (JStr (drop i (take j s)))
      | _ \<Rightarrow> Inl TypeError)"

definition call_toFixed :: "(rat \<Rightarrow> jsstring) \<Rightarrow> nat \<Rightarrow> jsval \<Rightarrow> jsval result" where
  "call_toFixed F f v =
     (case v of JNum n \<Rightarrow> Inr (JStr (Number_toFixed F f n)) | _ \<Rightarrow> Inl TypeError)"

text \<open>\<open>v?.toFixed(f)\<close>: \<open>undefined\<close> when \<open>v\<close> is \<open>undefined\<close> or \<open>null\<close>.\<close>

definition optcall_toFixed :: "(rat \<Rightarrow> jsstring) \<Rightarrow> nat \<Rightarrow> jsval \<Rightarrow> jsval result" where
  "optcall_toFixed F f v = (if nullish v then Inr JUndefined else call_toFixed F f v)"

text \<open>\<open>Object.keys\<close>: the own enumerable property names, in order.\<close>

definition Object_keys :: "jsval \<Rightarrow> jsstring list result" where
  "Object_keys v =
     (case v of
        JUndefined \<Rightarrow> Inl TypeError
      | JNull \<Rightarrow> Inl TypeError
      | JObj kvs \<Rightarrow> Inr (map fst kvs)
      | JArr xs \<Rightarrow> Inr (map (\<lambda>i. radix_digits 10 i) [0..<length xs])
      | JStr s \<Rightarrow> Inr (map (\<lambda>i. radix_digits 10 i) [0..<length s])
      | _ \<Rightarrow> Inr [])"

text \<open>
  \<open>JSON.stringify\<close> on plain data. Strings are quoted with the JSON escapes, a lone
  surrogate is written \<open>\uXXXX\<close>; a Number that is not finite is \<open>null\<close>; an
  \<open>undefined\<close> array element is \<open>null\<close> and an \<open>undefined\<close> property is left out; the
  result for \<open>undefined\<close> itself is \<open>undefined\<close> (\<open>None\<close>).
\<close>

fun JSON_quote_units :: "jsstring \<Rightarrow> jsstring" where
  "JSON_quote_units [] = []"
| "JSON_quote_units (c # cs) =
     (if c = 8 then [92, 98] @ JSON_quote_units cs
      else if c = 9 then [92, 116] @ JSON_quote_units cs
      else if c = 10 then [92, 110] @ JSON_quote_units cs
      else if c = 12 then [92, 102] @ JSON_quote_units cs
      else if c = 13 then [92, 114] @ JSON_quote_units cs
      else if c = 34 then [92, 34] @ JSON_quote_units cs
      else if c = 92 then [92, 92] @ JSON_quote_units cs
      else if c < 32 then
        [92, 117, 48, 48] @ (if c < 16 then [48] else []) @ radix_digits 16 c
          @ JSON_quote_units cs
      else if 55296 \<le> c \<and> c \<le> 56319 then
        (case cs of
           d # ds \<Rightarrow>
             if 56320 \<le> d \<and> d \<le> 57343 then c # d # JSON_quote_units ds
             else [92, 117] @ radix_digits 16 c @ JSON_quote_units cs
         | [] \<Rightarrow> [92, 117] @ radix_digits 16 c)
      else if 56320 \<le> c \<and> c \<le> 57343 then [92, 117] @ radix_digits 16 c @ JSON_quote_units cs
      else c # JSON_quote_units cs)"

definition JSON_quote :: "jsstring \<Rightarrow> jsstring" where
  "JSON_quote s = [34] @ JSON_quote_units s @ [34]"

fun JSON_serialize :: "(rat \<Rightarrow> jsstring) \<Rightarrow> jsval \<Rightarrow> jsstring option" where
  "JSON_serialize F JUndefined = None"
| "JSON_serialize F JNull = Some (js ''null'')"
| "JSON_serialize F (JBool b) = Some (if b then js ''true'' else js ''false'')"
| "JSON_serialize F (JNum n) =
     Some (case n of Fin q \<Rightarrow> Number_toString F n | _ \<Rightarrow> js ''null'')"
| "JSON_serialize F (JStr s) = Some (JSON_quote s)"
| "JSON_serialize F (JArr xs) =
     Some (js ''['' @
       join_strings (js '','')
         (map (\<lambda>v. case JSON_serialize F v of None \<Rightarrow> js ''null'' | Some s \<Rightarrow> s) xs) @
       js '']'')"
| "JSON_serialize F (JObj kvs) =
     Some (js ''{'' @
       join_strings (js '','')
         (concat (map (\<lambda>(k, v). case JSON_serialize F v of
                                    None \<Rightarrow> []
                                  | Some s \<Rightarrow> [JSON_quote k @ js '':'' @ s]) kvs)) @
       js ''}'')"

definition JSON_stringify :: "(rat \<Rightarrow> jsstring) \<Rightarrow> jsval \<Rightarrow> jsval" where
  "JSON_stringify F v = (case JSON_serialize F v of None \<Rightarrow> JUndefined | Some s \<Rightarrow> JStr s)"

text \<open>
  Assigning an own property of an object, \<open>o[k] = v\<close>: an existing property keeps its
  place, a new one is added last (the names assigned below are not array indices, which
  an object enumerates first).
\<close>

fun put_own :: "jsstring \<Rightarrow> jsval \<Rightarrow> (jsstring \<times> jsval) list \<Rightarrow> (jsstring \<times> jsval) list" where
  "put_own k v [] = [(k, v)]"
| "put_own k v ((k', v') # kvs) =
     (if k' = k then (k, v) # kvs else (k', v') # put_own k v kvs)"

section \<open>AdvancedBrowserFingerprint.getHash\<close>

text \<open>
  \<open>fp\<close> is the value of \<open>this.fingerprint\<close>. The array literal \<open>stableFeatures\<close> is
  evaluated in order; the three elements that can raise are bound first, in their order,
  and every other element only reads \<open>fp\<close>. The elements are then joined with \<open>|\<close> and
  hashed.
\<close>

definition AdvancedBrowserFingerprint_stableFeatures ::
  "(rat \<Rightarrow> jsstring) \<Rightarrow> jsval \<Rightarrow> jsval list result" where
  "AdvancedBrowserFingerprint_stableFeatures F fp =
     (if nullish fp then Inl TypeError
      else
     bind_result (call_sort F (js_or (opt_field (get_field fp ''webgl'') ''extensions'') (JArr []))) (\<lambda>sorted.
     bind_result (call_join F (js '','') sorted) (\<lambda>extensions.
     bind_result (optcall_toFixed F 2 (opt_field (get_field fp ''audio'') ''audioSum'')) (\<lambda>audioSum.
     bind_result (call_join F (js '','')
         (js_or (opt_field (get_field fp ''languages'') ''languages'') (JArr []))) (\<lambda>languages.
     Inr
      [JStr (js ''webgl:'' @ ToString F (get_field fp ''webglRenderer'')),
       JStr (js ''webgl_vendor:'' @ ToString F (get_field fp ''webglVendor'')),
       js_or (opt_field (get_field fp ''webgl'') ''version'') (JStr []),
       js_or (opt_field (get_field fp ''webgl'') ''shadingLanguageVersion'') (JStr []),
       extensions,
       JStr (js ''audio:'' @ ToString F (js_or audioSum (JStr []))),
       JStr (js ''audio_sr:'' @
         ToString F (js_or (opt_field (get_field fp ''audio'') ''sampleRate'') (JStr []))),
       JStr (js ''audio_ch:'' @
         ToString F (js_or (opt_field (get_field fp ''audio'') ''maxChannelCount'') (JStr []))),
       JStr (js ''canvas:'' @
         ToString F (js_or (opt_field (get_field fp ''canvas'') ''hash'') (JStr []))),
       JStr (js ''hw_cores:'' @
         ToString F (js_or (get_field fp ''hardwareConcurrency'') (JStr []))),
       JStr (js ''hw_mem:'' @ ToString F (js_or (get_field fp ''deviceMemory'') (JStr []))),
       JStr (js ''screen:'' @ ToString F (opt_field (get_field fp ''screen'') ''width'') @
         js ''x'' @ ToString F (opt_field (get_field fp ''screen'') ''height'')),
       JStr (js ''screen_depth:'' @
         ToString F (opt_field (get_field fp ''screen'') ''colorDepth'')),
       JStr (js ''screen_dpr:'' @
         ToString F (opt_field (get_field fp ''screen'') ''devicePixelRatio'')),
       JStr (js ''tz:'' @
         ToString F (js_or (opt_field (get_field fp ''timezone'') ''timezone'') (JStr []))),
       JStr (js ''tz_offset:'' @
         ToString F (js_or (opt_field (get_field fp ''timezone'') ''offset'') (JStr []))),
       JStr (js ''lang:'' @ ToString F languages),
       JStr (js ''math_tan:'' @
         ToString F (js_or (opt_field (get_field fp ''mathConstants'') ''tan'') (JStr []))),
       JStr (js ''math_sin:'' @
         ToString F (js_or (opt_field (get_field fp ''mathConstants'') ''sin'') (JStr []))),
       JStr (js ''math_acos:'' @
         ToString F (js_or (opt_field (get_field fp ''mathConstants'') ''acos'') (JStr []))),
       JSON_stringify F (js_or (get_field fp ''canvasTextMetrics'') (JObj [])),
       JStr (js ''platform:'' @
         ToString F (js_or (opt_field (get_field fp ''navigator'') ''platform'') (JStr []))),
       JStr (js ''vendor:'' @
         ToString F (js_or (opt_field (get_field fp ''navigator'') ''vendor'') (JStr []))),
       JStr (js ''touch:'' @
         ToString F (js_or (get_field fp ''maxTouchPoints'') (JNum (Fin 0)))),
       JStr (js ''speech:'' @
         ToString F (get_field (js_or (get_field fp ''speechSynthesis'') (JArr [])) ''length'')),
       JStr (js ''plugins:'' @
         ToString F (get_field (js_or (get_field fp ''plugins'') (JArr [])) ''length'')),
       JStr (js ''error:'' @
         ToString F (js_or (opt_field (get_field fp ''errorStack'') ''format'') (JStr []))),
       JStr (js ''rect:'' @
         ToString F (js_or (opt_field (get_field fp ''domRect'') ''width'') (JStr [])) @
         js ''x'' @
         ToString F (js_or (opt_field (get_field fp ''domRect'') ''height'') (JStr [])))])))))"

text \<open>The canonical string: \<open>stableFeatures.join('|')\<close>.\<close>

definition AdvancedBrowserFingerprint_canonical ::
  "(rat \<Rightarrow> jsstring) \<Rightarrow> jsval \<Rightarrow> jsstring result" where
  "AdvancedBrowserFingerprint_canonical F fp =
     bind_result (AdvancedBrowserFingerprint_stableFeatures F fp)
       (\<lambda>stableFeatures. Inr (Array_join F (js ''|'') stableFeatures))"

text \<open>
  \<open>sort()\<close> sorts in place: when \<open>this.fingerprint.webgl.extensions\<close> is an array, the call
  leaves it sorted in the fingerprint (with any other value \<open>|| []\<close> yields a fresh array
  or \<open>sort\<close> raises, and nothing is changed). No other step of \<open>getHash\<close> writes.
\<close>

definition sort_extensions_in_place :: "(rat \<Rightarrow> jsstring) \<Rightarrow> jsval \<Rightarrow> jsval" where
  "sort_extensions_in_place F fp =
     (case fp of
        JObj kvs \<Rightarrow>
          (case get_field fp ''webgl'' of
             JObj wkvs \<Rightarrow>
               (case get_field (JObj wkvs) ''extensions'' of
                  JArr xs \<Rightarrow>
                    JObj (put_own (js ''webgl'')
                      (JObj (put_own (js ''extensions'') (JArr (Array_sort F xs)) wkvs)) kvs)
                | _ \<Rightarrow> fp)
           | _ \<Rightarrow> fp)
      | _ \<Rightarrow> fp)"

text \<open>\<open>getHash()\<close>: what it returns or raises, and \<open>this.fingerprint\<close> afterwards.\<close>

definition AdvancedBrowserFingerprint_getHash ::
  "(rat \<Rightarrow> jsstring) \<Rightarrow> jsval \<Rightarrow> jsstring result \<times> jsval" where
  "AdvancedBrowserFingerprint_getHash F fp =
     (bind_result (AdvancedBrowserFingerprint_canonical F fp) (\<lambda>str. Inr (hash_string str)),
      sort_extensions_in_place F fp)"

section \<open>CSSFingerprint.getHash\<close>

text \<open>
  One spread element of the source,
  \<open>...Object.keys(fp.name || {}).sort().map(key => `label:${key}:${fp.name[key]}`)\<close>.
  The keys are strings, which \<open>sort()\<close> orders by their code units.
\<close>

definition sorted_keys :: "jsval \<Rightarrow> jsstring list result" where
  "sorted_keys v = bind_result (Object_keys (js_or v (JObj []))) (\<lambda>keys. Inr (sort keys))"

definition keyed_features ::
  "(rat \<Rightarrow> jsstring) \<Rightarrow> string \<Rightarrow> jsval \<Rightarrow> jsval list result" where
  "keyed_features F label v =
     bind_result (sorted_keys v) (\<lambda>keys.
       Inr (map (\<lambda>key. JStr (js label @ js '':'' @ key @ js '':'' @ ToString F (get_prop v key)))
              keys))"

text \<open>
  The font metrics element reads \<open>fp.fontMetrics[key].width.toFixed(1)\<close>, which raises
  when the entry is \<open>undefined\<close> or \<open>null\<close> or its \<open>width\<close> is not a Number.
\<close>

definition fontMetrics_features :: "(rat \<Rightarrow> jsstring) \<Rightarrow> jsval \<Rightarrow> jsval list result" where
  "fontMetrics_features F v =
     bind_result (sorted_keys v) (\<lambda>keys.
       map_result (\<lambda>key.
         bind_result (dot (get_prop v key) (js ''width'')) (\<lambda>width.
         bind_result (call_toFixed F 1 width) (\<lambda>w.
           Inr (JStr (js ''fm:'' @ key @ js '':'' @ ToString F w))))) keys)"

definition CSSFingerprint_stableFeatures ::
  "(rat \<Rightarrow> jsstring) \<Rightarrow> jsval \<Rightarrow> jsval list result" where
  "CSSFingerprint_stableFeatures F fp =
     (if nullish fp then Inl TypeError
      else
     bind_result (keyed_features F ''prop'' (get_field fp ''cssProperties'')) (\<lambda>cssProperties.
     bind_result (keyed_features F ''mq'' (get_field fp ''mediaQueries'')) (\<lambda>mediaQueries.
     bind_result (keyed_features F ''filter'' (get_field fp ''cssFilters'')) (\<lambda>cssFilters.
     bind_result (keyed_features F ''blend'' (get_field fp ''cssBlending'')) (\<lambda>cssBlending.
     bind_result (fontMetrics_features F (get_field fp ''fontMetrics'')) (\<lambda>fontMetrics.
     bind_result (keyed_features F ''emoji'' (get_field fp ''emojiRendering'')) (\<lambda>emojiRendering.
     Inr
      ([JStr (js ''sb:'' @
          ToString F (js_or (opt_field (get_field fp ''scrollbar'') ''width'') (JNum (Fin 0))) @
          js ''x'' @
          ToString F (js_or (opt_field (get_field fp ''scrollbar'') ''height'') (JNum (Fin 0)))),
        JStr (js ''grid:'' @
          ToString F (js_or (opt_field (get_field fp ''cssGrid'') ''supported'') (JBool False))),
        JStr (js ''subgrid:'' @
          ToString F (js_or (opt_field (get_field fp ''cssGrid'') ''subgrid'') (JBool False))),
        JStr (js ''vars:'' @
          ToString F
            (js_or (opt_field (get_field fp ''cssVariables'') ''supported'') (JBool False))),
        JStr (js ''fonts:'' @
          ToString F (js_or (opt_field (get_field fp ''fontList'') ''length'') (JNum (Fin 0))))]
       @ cssProperties @ mediaQueries @ cssFilters @ cssBlending @ fontMetrics @ emojiRendering @
       [JStr (js ''shadow:'' @ ToString F (js_or (get_field fp ''boxShadow'') (JStr []))),
        JStr (js ''radius:'' @
          ToString F
            (js_or (opt_field (get_field fp ''borderRadius'') ''borderRadius'') (JStr [])))]))))))))"

definition CSSFingerprint_getHash :: "(rat \<Rightarrow> jsstring) \<Rightarrow> jsval \<Rightarrow> jsstring result" where
  "CSSFingerprint_getHash F fp =
     bind_result (CSSFingerprint_stableFeatures F fp)
       (\<lambda>stableFeatures. Inr (hash_string (Array_join F (js ''|'') stableFeatures)))"

section \<open>AdvancedCSSFingerprint.getHash\<close>

text \<open>\<open>r\<close> is the value of \<open>this.results\<close>.\<close>

definition AdvancedCSSFingerprint_features ::
  "(rat \<Rightarrow> jsstring) \<Rightarrow> jsval \<Rightarrow> jsval list result" where
  "AdvancedCSSFingerprint_features F r =
     (if nullish r then Inl TypeError
      else
     bind_result (call_slice 0 10 (js_or (get_field r ''fonts'') (JArr []))) (\<lambda>first10.
     bind_result (call_sort F first10) (\<lambda>sorted.
     Inr
      ([JStr (js ''fonts:'' @
          ToString F (js_or (opt_field (get_field r ''fonts'') ''length'') (JNum (Fin 0)))),
        JStr (js ''colorScheme:'' @ ToString F (get_field r ''colorScheme'')),
        JStr (js ''reducedMotion:'' @ ToString F (get_field r ''prefersReducedMotion'')),
        JStr (js ''contrast:'' @ ToString F (get_field r ''prefersContrast'')),
        JStr (js ''forcedColors:'' @ ToString F (get_field r ''forcedColors'')),
        JStr (js ''invertedColors:'' @ ToString F (get_field r ''invertedColors'')),
        JStr (js ''orientation:'' @ ToString F (get_field r ''orientation'')),
        JStr (js ''pointer:'' @ ToString F (get_field r ''pointerType'')),
        JStr (js ''hover:'' @ ToString F (get_field r ''hoverCapability'')),
        JStr (js ''displayMode:'' @ ToString F (get_field r ''displayMode'')),
        JStr (js ''resolution:'' @
          ToString F (opt_field (get_field r ''screenResolution'') ''width'') @ js ''x'' @
          ToString F (opt_field (get_field r ''screenResolution'') ''height'')),
        JStr (js ''dpr:'' @ ToString F (get_field r ''devicePixelRatio'')),
        JStr (js ''colorGamut:'' @ ToString F (get_field r ''colorGamut'')),
        JStr (js ''dynamicRange:'' @ ToString F (get_field r ''dynamicRange'')),
        JStr (js ''monochrome:'' @ ToString F (get_field r ''monochrome'')),
        JStr (js ''grid:'' @ ToString F (get_field r ''grid'')),
        JStr (js ''update:'' @ ToString F (get_field r ''update''))]
       @ (case sorted of
            JArr fs \<Rightarrow> map (\<lambda>f. JStr (js ''font:'' @ ToString F f)) fs
          | _ \<Rightarrow> [])))))"

definition AdvancedCSSFingerprint_canonical ::
  "(rat \<Rightarrow> jsstring) \<Rightarrow> jsval \<Rightarrow> jsstring result" where
  "AdvancedCSSFingerprint_canonical F r =
     bind_result (AdvancedCSSFingerprint_features F r)
       (\<lambda>features. Inr (Array_join F (js ''|'') features))"

definition AdvancedCSSFingerprint_getHash ::
  "(rat \<Rightarrow> jsstring) \<Rightarrow> jsval \<Rightarrow> jsstring result" where
  "AdvancedCSSFingerprint_getHash F r =
     bind_result (AdvancedCSSFingerprint_canonical F r) (\<lambda>str. Inr (hash_string str))"

section \<open>CombinedCSSFingerprint.getCombinedHash\<close>

text \<open>
  \<open>getCombinedHash(basic, advanced)\<close> stores its arguments in two fresh engines, takes
  their hashes and hashes \<open>`${basicHash}|${advancedHash}`\<close>.
\<close>

definition getCombinedHash :: "(rat \<Rightarrow> jsstring) \<Rightarrow> jsval \<Rightarrow> jsval \<Rightarrow> jsstring result" where
  "getCombinedHash F basic advanced =
     bind_result (CSSFingerprint_getHash F basic) (\<lambda>basicHash.
     bind_result (AdvancedCSSFingerprint_getHash F advanced) (\<lambda>advancedHash.
       Inr (hash_string (basicHash @ js ''|'' @ advancedHash))))"

section \<open>Promises\<close>

text \<open>
  What a promise comes to: fulfilled with a value, rejected with an error, or never
  settled. \<open>await\<close> and \<open>Promise.all\<close> only observe this. \<open>Promise.all\<close> rejects as
  soon as one member rejects (the model reports the first rejected member of the list; in
  the runtime it is the first in time), otherwise it waits for every member.
\<close>

datatype 'a promise = Fulfilled 'a | Rejected js_error | Pending

fun Promise_all :: "'a promise list \<Rightarrow> 'a list promise" where
  "Promise_all [] = Fulfilled []"
| "Promise_all (p # ps) =
     (case p of
        Rejected e \<Rightarrow> Rejected e
      | Fulfilled v \<Rightarrow>
          (case Promise_all ps of
             Fulfilled vs \<Rightarrow> Fulfilled (v # vs)
           | Rejected e \<Rightarrow> Rejected e
           | Pending \<Rightarrow> Pending)
      | Pending \<Rightarrow>
          (case Promise_all ps of
             Rejected e \<Rightarrow> Rejected e
           | _ \<Rightarrow> Pending))"

text \<open>An \<open>async\<close> function whose body runs without awaiting: it returns or it throws.\<close>

definition async_result :: "'a result \<Rightarrow> 'a promise" where
  "async_result r = (case r of Inl e \<Rightarrow> Rejected e | Inr v \<Rightarrow> Fulfilled v)"

section \<open>CombinedCSSFingerprint.generate\<close>

text \<open>
  \<open>CombinedCSSFingerprint.generate()\<close>. Its two arguments here are what
  \<open>new CSSFingerprint().generate()\<close> and \<open>new AdvancedCSSFingerprint().generate()\<close> come
  to on the host. The two \<open>hash\<close> members are taken from engines made by \<open>new\<close>, whose
  \<open>fingerprint\<close> and \<open>results\<close> are \<open>{}\<close>.
\<close>

definition CombinedCSSFingerprint_generate ::
  "(rat \<Rightarrow> jsstring) \<Rightarrow> jsval promise \<Rightarrow> jsval promise \<Rightarrow> jsval promise" where
  "CombinedCSSFingerprint_generate F basic_generate advanced_generate =
     (case Promise_all [basic_generate, advanced_generate] of
        Fulfilled rs \<Rightarrow>
          (let basic = rs ! 0; advanced = rs ! 1 in
           async_result
             (bind_result (CSSFingerprint_getHash F (JObj [])) (\<lambda>basic_hash.
              bind_result (AdvancedCSSFingerprint_getHash F (JObj [])) (\<lambda>advanced_hash.
              bind_result (getCombinedHash F basic advanced) (\<lambda>combined.
                Inr (JObj
                  [(js ''basic'', JObj [(js ''data'', basic), (js ''hash'', JStr basic_hash)]),
                   (js ''advanced'',
                      JObj [(js ''data'', advanced), (js ''hash'', JStr advanced_hash)]),
                   (js ''combined'', JStr combined)]))))))
      | Rejected e \<Rightarrow> Rejected e
      | Pending \<Rightarrow> Pending)"

section \<open>AdvancedBrowserFingerprint.generate\<close>

text \<open>
  The probes measure the host. What the statements of a probe do on a host is the host's
  part and is given by the record below: a body without \<open>await\<close> returns a value or
  throws (\<open>jsval result\<close>); a body that awaits a host promise returns, throws (also when
  the awaited promise rejects) or never resumes (\<open>jsval promise\<close>). What the source adds
  around the body, its \<open>try\<close>/\<open>catch\<close> or the absence of one, is in the probe functions.
  \<open>detectPlugins\<close> and \<open>detectMimeTypes\<close> are modelled in full: the host gives
  \<open>navigator.plugins\<close> and \<open>navigator.mimeTypes\<close>, \<open>None\<close> when the property is
  \<open>undefined\<close>.
\<close>

record host =
  WebGLFingerprint_body :: "jsval result"
  AudioContext_body :: "jsval promise"
  CanvasFingerprint_body :: "jsval result"
  RTCPeerConnection_lookup :: "bool result"
  WebRTC_executor :: "jsval result"
  HardwareConcurrency_body :: "jsval result"
  DeviceMemory_body :: "jsval result"
  BatteryAPI_body :: "jsval promise"
  TimezoneOffset_body :: "jsval result"
  Languages_body :: "jsval result"
  navigator_plugins :: "jsval list option"
  navigator_mimeTypes :: "jsval list option"
  TouchSupport_body :: "jsval result"
  MaxTouchPoints_body :: "jsval result"
  ScreenDetails_body :: "jsval result"
  NavigatorProperties_body :: "jsval result"
  PerformanceMetrics_body :: "jsval result"
  WebGLRenderer_body :: "jsval result"
  WebGLVendor_body :: "jsval result"
  CanvasTextMetrics_body :: "jsval result"
  MathConstants_body :: "jsval result"
  ErrorStackTrace_body :: "jsval result"
  DOMRectPrecision_body :: "jsval result"
  speechSynthesis_lookup :: "bool result"
  SpeechSynthesis_executor :: "jsval result"
  MediaDevices_body :: "jsval promise"
  GamepadAPI_body :: "jsval result"
  VibrationAPI_body :: "jsval result"
  NetworkInformation_body :: "jsval result"
  StorageQuota_body :: "jsval promise"
  IndexedDBQuirks_body :: "jsval result"
  WebAssemblySupport_body :: "jsval result"

text \<open>\<open>async f() { try { body } catch (e) { return null; } }\<close>\<close>

definition try_catch_null :: "jsval result \<Rightarrow> jsval promise" where
  "try_catch_null body = (case body of Inl e \<Rightarrow> Fulfilled JNull | Inr v \<Rightarrow> Fulfilled v)"

text \<open>The same with an \<open>await\<close> in the body.\<close>

definition try_catch_null_await :: "jsval promise \<Rightarrow> jsval promise" where
  "try_catch_null_await body =
     (case body of Rejected e \<Rightarrow> Fulfilled JNull | Fulfilled v \<Rightarrow> Fulfilled v | Pending \<Rightarrow> Pending)"

text \<open>\<open>async f() { body }\<close>, with no \<open>try\<close>: what the body throws rejects the promise.\<close>

definition no_try :: "jsval result \<Rightarrow> jsval promise" where
  "no_try body = async_result body"

text \<open>
  \<open>async f() { try { if (!lookup) return null; return new Promise(executor); }
  catch (e) { return null; } }\<close>: the promise is returned without \<open>await\<close>, so an error
  thrown by the executor rejects the promise of \<open>f\<close> and does not reach the \<open>catch\<close>. Both
  executors of the source arm a one-second timer that resolves the promise, so a promise
  whose executor ran through is fulfilled.
\<close>

definition try_return_new_Promise :: "bool result \<Rightarrow> jsval result \<Rightarrow> jsval promise" where
  "try_return_new_Promise lookup executor =
     (case lookup of
        Inl e \<Rightarrow> Fulfilled JNull
      | Inr present \<Rightarrow> if present then async_result executor else Fulfilled JNull)"

definition detectWebGLFingerprint :: "host \<Rightarrow> jsval promise" where
  "detectWebGLFingerprint h = try_catch_null (WebGLFingerprint_body h)"

definition detectAudioContext :: "host \<Rightarrow> jsval promise" where
  "detectAudioContext h = try_catch_null_await (AudioContext_body h)"

definition detectCanvasFingerprint :: "host \<Rightarrow> jsval promise" where
  "detectCanvasFingerprint h = try_catch_null (CanvasFingerprint_body h)"

definition detectWebRTCFingerprint :: "host \<Rightarrow> jsval promise" where
  "detectWebRTCFingerprint h =
     try_return_new_Promise (RTCPeerConnection_lookup h) (WebRTC_executor h)"

definition detectHardwareConcurrency :: "host \<Rightarrow> jsval promise" where
  "detectHardwareConcurrency h = no_try (HardwareConcurrency_body h)"

definition detectDeviceMemory :: "host \<Rightarrow> jsval promise" where
  "detectDeviceMemory h = no_try (DeviceMemory_body h)"

definition detectBatteryAPI :: "host \<Rightarrow> jsval promise" where
  "detectBatteryAPI h = try_catch_null_await (BatteryAPI_body h)"

definition detectTimezoneOffset :: "host \<Rightarrow> jsval promise" where
  "detectTimezoneOffset h = no_try (TimezoneOffset_body h)"

definition detectLanguages :: "host \<Rightarrow> jsval promise" where
  "detectLanguages h = no_try (Languages_body h)"

text \<open>
  \<^verbatim>\<open>
  async detectPlugins() {
      const plugins = [];
      for (let i = 0; i < navigator.plugins.length; i++) {
          const plugin = navigator.plugins[i];
          plugins.push({ name: plugin.name, description: plugin.description,
                         filename: plugin.filename });
      }
      return plugins;
  }
  \<close>
  Reading \<open>length\<close> of \<open>undefined\<close> is a TypeError, and there is no \<open>try\<close>.
\<close>

definition copy_fields :: "string list \<Rightarrow> jsval \<Rightarrow> jsval result" where
  "copy_fields names v =
     bind_result (map_result (\<lambda>k. bind_result (dot v (js k)) (\<lambda>x. Inr (js k, x))) names)
       (\<lambda>kvs. Inr (JObj kvs))"

definition detectPlugins :: "host \<Rightarrow> jsval promise" where
  "detectPlugins h =
     async_result
       (case navigator_plugins h of
          None \<Rightarrow> Inl TypeError
        | Some plugins \<Rightarrow>
            bind_result
              (map_result (copy_fields [''name'', ''description'', ''filename'']) plugins)
              (\<lambda>ps. Inr (JArr ps)))"

definition detectMimeTypes :: "host \<Rightarrow> jsval promise" where
  "detectMimeTypes h =
     async_result
       (case navigator_mimeTypes h of
          None \<Rightarrow> Inl TypeError
        | Some mimeTypes \<Rightarrow>
            bind_result
              (map_result (copy_fields [''type'', ''description'', ''suffixes'']) mimeTypes)
              (\<lambda>ms. Inr (JArr ms)))"

definition detectTouchSupport :: "host \<Rightarrow> jsval promise" where
  "detectTouchSupport h = no_try (TouchSupport_body h)"

definition detectMaxTouchPoints :: "host \<Rightarrow> jsval promise" where
  "detectMaxTouchPoints h = no_try (MaxTouchPoints_body h)"

definition detectScreenDetails :: "host \<Rightarrow> jsval promise" where
  "detectScreenDetails h = no_try (ScreenDetails_body h)"

definition detectNavigatorProperties :: "host \<Rightarrow> jsval promise" where
  "detectNavigatorProperties h = no_try (NavigatorProperties_body h)"

definition detectPerformanceMetrics :: "host \<Rightarrow> jsval promise" where
  "detectPerformanceMetrics h = no_try (PerformanceMetrics_body h)"

definition detectWebGLRenderer :: "host \<Rightarrow> jsval promise" where
  "detectWebGLRenderer h = try_catch_null (WebGLRenderer_body h)"

definition detectWebGLVendor :: "host \<Rightarrow> jsval promise" where
  "detectWebGLVendor h = try_catch_null (WebGLVendor_body h)"

definition detectCanvasTextMetrics :: "host \<Rightarrow> jsval promise" where
  "detectCanvasTextMetrics h = try_catch_null (CanvasTextMetrics_body h)"

definition detectMathConstants :: "host \<Rightarrow> jsval promise" where
  "detectMathConstants h = no_try (MathConstants_body h)"

text \<open>
  \<open>detectErrorStackTrace\<close> builds its result inside its \<open>catch\<close> block; nothing guards
  that block.
\<close>

definition detectErrorStackTrace :: "host \<Rightarrow> jsval promise" where
  "detectErrorStackTrace h = no_try (ErrorStackTrace_body h)"

definition detectDOMRectPrecision :: "host \<Rightarrow> jsval promise" where
  "detectDOMRectPrecision h = try_catch_null (DOMRectPrecision_body h)"

definition detectSpeechSynthesis :: "host \<Rightarrow> jsval promise" where
  "detectSpeechSynthesis h =
     try_return_new_Promise (speechSynthesis_lookup h) (SpeechSynthesis_executor h)"

definition detectMediaDevices :: "host \<Rightarrow> jsval promise" where
  "detectMediaDevices h = try_catch_null_await (MediaDevices_body h)"

definition detectGamepadAPI :: "host \<Rightarrow> jsval promise" where
  "detectGamepadAPI h = try_catch_null (GamepadAPI_body h)"

definition detectVibrationAPI :: "host \<Rightarrow> jsval promise" where
  "detectVibrationAPI h = no_try (VibrationAPI_body h)"

definition detectNetworkInformation :: "host \<Rightarrow> jsval promise" where
  "detectNetworkInformation h = try_catch_null (NetworkInformation_body h)"

definition detectStorageQuota :: "host \<Rightarrow> jsval promise" where
  "detectStorageQuota h = try_catch_null_await (StorageQuota_body h)"

definition detectIndexedDBQuirks :: "host \<Rightarrow> jsval promise" where
  "detectIndexedDBQuirks h = try_catch_null (IndexedDBQuirks_body h)"

definition detectWebAssemblySupport :: "host \<Rightarrow> jsval promise" where
  "detectWebAssemblySupport h = try_catch_null (WebAssemblySupport_body h)"

definition probes :: "host \<Rightarrow> jsval promise list" where
  "probes h =
     [detectWebGLFingerprint h, detectAudioContext h, detectCanvasFingerprint h,
      detectWebRTCFingerprint h, detectHardwareConcurrency h, detectDeviceMemory h,
      detectBatteryAPI h, detectTimezoneOffset h, detectLanguages h, detectPlugins h,
      detectMimeTypes h, detectTouchSupport h, detectMaxTouchPoints h, detectScreenDetails h,
      detectNavigatorProperties h, detectPerformanceMetrics h, detectWebGLRenderer h,
      detectWebGLVendor h, detectCanvasTextMetrics h, detectMathConstants h,
      detectErrorStackTrace h, detectDOMRectPrecision h, detectSpeechSynthesis h,
      detectMediaDevices h, detectGamepadAPI h, detectVibrationAPI h,
      detectNetworkInformation h, detectStorageQuota h, detectIndexedDBQuirks h,
      detectWebAssemblySupport h]"

text \<open>The object literal that \<open>generate()\<close> stores in \<open>this.fingerprint\<close>.\<close>

definition assemble :: "jsval list \<Rightarrow> jsval" where
  "assemble results =
     JObj
      [(js ''webgl'', results ! 0), (js ''audio'', results ! 1), (js ''canvas'', results ! 2),
       (js ''webrtc'', results ! 3), (js ''hardwareConcurrency'', results ! 4),
       (js ''deviceMemory'', results ! 5), (js ''battery'', results ! 6),
       (js ''timezone'', results ! 7), (js ''languages'', results ! 8),
       (js ''plugins'', results ! 9), (js ''mimeTypes'', results ! 10),
       (js ''touchSupport'', results ! 11), (js ''maxTouchPoints'', results ! 12),
       (js ''screen'', results ! 13), (js ''navigator'', results ! 14),
       (js ''performance'', results ! 15), (js ''webglRenderer'', results ! 16),
       (js ''webglVendor'', results ! 17), (js ''canvasTextMetrics'', results ! 18),
       (js ''mathConstants'', results ! 19), (js ''errorStack'', results ! 20),
       (js ''domRect'', results ! 21), (js ''speechSynthesis'', results ! 22),
       (js ''mediaDevices'', results ! 23), (js ''gamepad'', results ! 24),
       (js ''vibration'', results ! 25), (js ''network'', results ! 26),
       (js ''storageQuota'', results ! 27), (js ''indexedDB'', results ! 28),
       (js ''webAssembly'', results ! 29)]"

text \<open>
  \<open>generate()\<close> on a host, from the fingerprint state \<open>fp0\<close>: what its promise comes to,
  and \<open>this.fingerprint\<close> afterwards (assigned only once \<open>Promise.all\<close> is fulfilled).
\<close>

definition AdvancedBrowserFingerprint_generate :: "host \<Rightarrow> jsval \<Rightarrow> jsval promise \<times> jsval" where
  "AdvancedBrowserFingerprint_generate h fp0 =
     (case Promise_all (probes h) of
        Fulfilled results \<Rightarrow> (Fulfilled (assemble results), assemble results)
      | Rejected e \<Rightarrow> (Rejected e, fp0)
      | Pending \<Rightarrow> (Pending, fp0))"

text \<open>The state a constructor leaves: \<open>this.fingerprint = {}\<close>.\<close>

definition new_fingerprint :: jsval where
  "new_fingerprint = JObj []"

section \<open>Sample inputs\<close>

text \<open>
  A rendering for the non-integral Numbers, for inputs that hold none: it is never
  called on them.
\<close>

definition no_fractions :: "rat \<Rightarrow> jsstring" where
  "no_fractions q = []"

text \<open>A fingerprint of a host that reports two cores and 4 GB of device memory.\<close>

definition fingerprint_2_cores_4_GB :: jsval where
  "fingerprint_2_cores_4_GB =
     JObj [(js ''hardwareConcurrency'', JNum (Fin 2)), (js ''deviceMemory'', JNum (Fin 4))]"

text \<open>
  The fields the source lists as excluded: \<open>battery\<close>, \<open>network\<close>,
  \<open>performance\<close> (which holds \<open>memory\<close>) and \<open>storageQuota\<close>.
\<close>

definition volatile_fields :: "string list" where
  "volatile_fields = [''battery'', ''network'', ''performance'', ''storageQuota'']"

text \<open>
  Two fingerprints of one device at different moments: the same cores and memory,
  different battery, network, heap and storage readings.
\<close>

definition fingerprint_morning :: jsval where
  "fingerprint_morning =
     JObj [(js ''hardwareConcurrency'', JNum (Fin 2)), (js ''deviceMemory'', JNum (Fin 4)),
           (js ''battery'', JObj [(js ''charging'', JBool True), (js ''level'', JNum (Fin 100))]),
           (js ''network'', JObj [(js ''effectiveType'', JStr (js ''4g'')), (js ''rtt'', JNum (Fin 50))]),
           (js ''performance'',
              JObj [(js ''memory'', JObj [(js ''usedJSHeapSize'', JNum (Fin 10000000))])]),
           (js ''storageQuota'', JObj [(js ''usage'', JNum (Fin 0))])]"

definition fingerprint_evening :: jsval where
  "fingerprint_evening =
     JObj [(js ''hardwareConcurrency'', JNum (Fin 2)), (js ''deviceMemory'', JNum (Fin 4)),
           (js ''battery'', JObj [(js ''charging'', JBool False), (js ''level'', JNum (Fin 17))]),
           (js ''network'', JObj [(js ''effectiveType'', JStr (js ''3g'')), (js ''rtt'', JNum (Fin 300))]),
           (js ''performance'',
              JObj [(js ''memory'', JObj [(js ''usedJSHeapSize'', JNum (Fin 52000000))])]),
           (js ''storageQuota'', JObj [(js ''usage'', JNum (Fin 123456))])]"

text \<open>A list of WebGL extensions in two orders.\<close>

definition extensions_host_order :: "jsval list" where
  "extensions_host_order =
     [JStr (js ''OES_texture_float''), JStr (js ''ANGLE_instanced_arrays''),
      JStr (js ''EXT_blend_minmax'')]"

definition extensions_other_order :: "jsval list" where
  "extensions_other_order =
     [JStr (js ''EXT_blend_minmax''), JStr (js ''OES_texture_float''),
      JStr (js ''ANGLE_instanced_arrays'')]"

text \<open>Eleven detected fonts, and the same list with its last two entries exchanged.\<close>

definition fonts_11 :: "jsval list" where
  "fonts_11 =
     map (\<lambda>s. JStr (js s))
       [''Arial'', ''Arial Black'', ''Calibri'', ''Cambria'', ''Candara'', ''Comic Sans MS'',
        ''Consolas'', ''Constantia'', ''Corbel'', ''Courier New'', ''Georgia'']"

definition fonts_11_exchanged :: "jsval list" where
  "fonts_11_exchanged =
     map (\<lambda>s. JStr (js s))
       [''Arial'', ''Arial Black'', ''Calibri'', ''Cambria'', ''Candara'', ''Comic Sans MS'',
        ''Consolas'', ''Constantia'', ''Corbel'', ''Georgia'', ''Courier New'']"

text \<open>Three detected fonts in two orders.\<close>

definition fonts_3 :: "jsval list" where
  "fonts_3 = [JStr (js ''Arial''), JStr (js ''Verdana''), JStr (js ''Georgia'')]"

definition fonts_3_reversed :: "jsval list" where
  "fonts_3_reversed = [JStr (js ''Georgia''), JStr (js ''Verdana''), JStr (js ''Arial'')]"

text \<open>Two fingerprints whose language lists hold the same languages in two orders.\<close>

definition fingerprint_en_de :: jsval where
  "fingerprint_en_de =
     JObj [(js ''languages'',
            JObj [(js ''languages'', JArr [JStr (js ''en-US''), JStr (js ''de'')]),
                  (js ''language'', JStr (js ''en-US''))])]"

definition fingerprint_de_en :: jsval where
  "fingerprint_de_en =
     JObj [(js ''languages'',
            JObj [(js ''languages'', JArr [JStr (js ''de''), JStr (js ''en-US'')]),
                  (js ''language'', JStr (js ''en-US''))])]"

text \<open>
  A fingerprint whose WebGL extensions are in host order, the same fingerprint after
  \<open>sort()\<close> has run on the list, and \<open>AdvancedCSSFingerprint\<close> results with the eleven
  fonts in their two orders.
\<close>

definition fingerprint_webgl :: jsval where
  "fingerprint_webgl =
     JObj [(js ''webgl'',
            JObj [(js ''version'', JStr (js ''WebGL 1.0'')),
                  (js ''extensions'', JArr extensions_host_order)])]"

definition fingerprint_webgl_sorted :: jsval where
  "fingerprint_webgl_sorted =
     JObj [(js ''webgl'',
            JObj [(js ''version'', JStr (js ''WebGL 1.0'')),
                  (js ''extensions'',
                   JArr [JStr (js ''ANGLE_instanced_arrays''), JStr (js ''EXT_blend_minmax''),
                         JStr (js ''OES_texture_float'')])])]"

definition results_fonts_11 :: jsval where
  "results_fonts_11 = JObj [(js ''fonts'', JArr fonts_11)]"

definition results_fonts_11_exchanged :: jsval where
  "results_fonts_11_exchanged = JObj [(js ''fonts'', JArr fonts_11_exchanged)]"

text \<open>
  A fingerprint or result object with one list replaced: \<open>fp.webgl = webgl\<close> with
  \<open>webgl.extensions = xs\<close>, and \<open>results.fonts = fs\<close>.
\<close>

definition with_extensions ::
  "jsval list \<Rightarrow> (jsstring \<times> jsval) list \<Rightarrow> (jsstring \<times> jsval) list \<Rightarrow> jsval" where
  "with_extensions xs webgl fp =
     JObj (put_own (js ''webgl'') (JObj (put_own (js ''extensions'') (JArr xs) webgl)) fp)"

definition with_fonts :: "jsval list \<Rightarrow> (jsstring \<times> jsval) list \<Rightarrow> jsval" where
  "with_fonts fs results = JObj (put_own (js ''fonts'') (JArr fs) results)"

text \<open>Results of \<open>CSSFingerprint\<close> with a 15 pixel scrollbar.\<close>

definition basic_scrollbar_15 :: jsval where
  "basic_scrollbar_15 =
     JObj [(js ''scrollbar'', JObj [(js ''width'', JNum (Fin 15)), (js ''height'', JNum (Fin 15))])]"

text \<open>Results of \<open>AdvancedCSSFingerprint\<close> on two screens.\<close>

definition advanced_400x800 :: jsval where
  "advanced_400x800 =
     JObj [(js ''screenResolution'',
            JObj [(js ''width'', JNum (Fin 400)), (js ''height'', JNum (Fin 800))])]"

definition advanced_599x1022 :: jsval where
  "advanced_599x1022 =
     JObj [(js ''screenResolution'',
            JObj [(js ''width'', JNum (Fin 599)), (js ''height'', JNum (Fin 1022))])]"

text \<open>The first of them with \<open>scan\<close>, a result that \<open>getHash\<close> does not read.\<close>

definition advanced_400x800_progressive :: jsval where
  "advanced_400x800_progressive =
     JObj [(js ''screenResolution'',
            JObj [(js ''width'', JNum (Fin 400)), (js ''height'', JNum (Fin 800))]),
           (js ''scan'', JStr (js ''progressive''))]"

text \<open>
  A host on which every probe body returns \<open>null\<close> and the plugin and MIME type
  collections are empty, and the same host with \<open>navigator.plugins\<close> undefined (a
  \<open>navigator\<close> without a plugin collection, as in a worker scope or in a runtime outside
  the browser).
\<close>

definition quiet_host :: host where
  "quiet_host =
     \<lparr>WebGLFingerprint_body = Inr JNull, AudioContext_body = Fulfilled JNull,
      CanvasFingerprint_body = Inr JNull, RTCPeerConnection_lookup = Inr False,
      WebRTC_executor = Inr JNull, HardwareConcurrency_body = Inr JNull,
      DeviceMemory_body = Inr JNull, BatteryAPI_body = Fulfilled JNull,
      TimezoneOffset_body = Inr JNull, Languages_body = Inr JNull,
      navigator_plugins = Some [], navigator_mimeTypes = Some [],
      TouchSupport_body = Inr JNull, MaxTouchPoints_body = Inr (JNum (Fin 0)),
      ScreenDetails_body = Inr JNull, NavigatorProperties_body = Inr JNull,
      PerformanceMetrics_body = Inr JNull, WebGLRenderer_body = Inr JNull,
      WebGLVendor_body = Inr JNull, CanvasTextMetrics_body = Inr JNull,
      MathConstants_body = Inr JNull, ErrorStackTrace_body = Inr JNull,
      DOMRectPrecision_body = Inr JNull, speechSynthesis_lookup = Inr False,
      SpeechSynthesis_executor = Inr JNull, MediaDevices_body = Fulfilled JNull,
      GamepadAPI_body = Inr JNull, VibrationAPI_body = Inr (JBool False),
      NetworkInformation_body = Inr JNull, StorageQuota_body = Fulfilled JNull,
      IndexedDBQuirks_body = Inr JNull, WebAssemblySupport_body = Inr JNull\<rparr>"

definition host_without_plugins :: host where
  "host_without_plugins = quiet_host\<lparr>navigator_plugins := None\<rparr>"

text \<open>
  The quiet host with a WebGL context whose probe body throws, and with a WebRTC
  constructor that throws inside the promise executor.
\<close>

definition host_webgl_throws :: host where
  "host_webgl_throws = quiet_host\<lparr>WebGLFingerprint_body := Inl HostError\<rparr>"

definition host_webrtc_throws :: host where
  "host_webrtc_throws =
     quiet_host\<lparr>RTCPeerConnection_lookup := Inr True, WebRTC_executor := Inl HostError\<rparr>"

text \<open>The keys of the object literal in \<open>generate()\<close>, in its order.\<close>

definition fingerprint_keys :: "string list" where
  "fingerprint_keys =
     [''webgl'', ''audio'', ''canvas'', ''webrtc'', ''hardwareConcurrency'', ''deviceMemory'',
      ''battery'', ''timezone'', ''languages'', ''plugins'', ''mimeTypes'', ''touchSupport'',
      ''maxTouchPoints'', ''screen'', ''navigator'', ''performance'', ''webglRenderer'',
      ''webglVendor'', ''canvasTextMetrics'', ''mathConstants'', ''errorStack'', ''domRect'',
      ''speechSynthesis'', ''mediaDevices'', ''gamepad'', ''vibration'', ''network'',
      ''storageQuota'', ''indexedDB'', ''webAssembly'']"

chapter \<open>Properties\<close>

section \<open>Properties of the hash loop\<close>

lemma ToInt32_cong_mod: "ToInt32 x mod 2 ^ 32 = x mod 2 ^ 32"
proof -
  have "(x mod 2 ^ 32 - 2 ^ 32) mod 2 ^ 32 = x mod (2 ^ 32 :: int)"
    by (metis minus_mod_self2 mod_mod_trivial)
  then show ?thesis
    by (simp add: ToInt32_def Let_def)
qed

lemma js_shl_5_mod: "js_shl h 5 mod 2 ^ 32 = (32 * h) mod 2 ^ 32"
proof -
  have "js_shl h 5 mod 2 ^ 32 = (ToInt32 h * 32) mod 2 ^ 32"
    unfolding js_shl_def by (simp only: ToInt32_cong_mod) simp
  also have "\<dots> = ((ToInt32 h mod 2 ^ 32) * 32) mod 2 ^ 32"
    by (simp only: mod_mult_left_eq)
  also have "\<dots> = ((h mod 2 ^ 32) * 32) mod 2 ^ 32"
    by (simp only: ToInt32_cong_mod)
  also have "\<dots> = (h * 32) mod 2 ^ 32"
    by (simp only: mod_mult_left_eq)
  finally show ?thesis
    by (simp only: mult.commute)
qed

lemma hash_step_mod: "hash_step h c = (33 * h + int c) mod 2 ^ 32"
proof -
  have "hash_step h c = (js_shl h 5 mod 2 ^ 32 + (h + int c)) mod 2 ^ 32"
    by (simp add: hash_step_def js_ushr0_def ToUint32_def mod_add_left_eq add.assoc)
  also have "\<dots> = ((32 * h) mod 2 ^ 32 + (h + int c)) mod 2 ^ 32"
    by (simp only: js_shl_5_mod)
  also have "\<dots> = (32 * h + (h + int c)) mod 2 ^ 32"
    by (simp add: mod_add_left_eq)
  finally show ?thesis
    by (simp add: algebra_simps)
qed

lemma hash_step_reference:
  "hash_step (int h) c = int ((33 * h + c) mod 2 ^ 32)"
  by (simp add: hash_step_mod zmod_int)

lemma foldl_hash_step_reference:
  "foldl hash_step (int h) str = int (foldl (\<lambda>h c. (33 * h + c) mod 2 ^ 32) h str)"
proof (induction str arbitrary: h)
  case Nil
  show ?case by simp
next
  case (Cons c cs)
  have "foldl hash_step (int h) (c # cs) = foldl hash_step (int ((33 * h + c) mod 2 ^ 32)) cs"
    by (simp only: foldl_Cons hash_step_reference)
  then show ?case
    by (simp add: Cons.IH)
qed

lemma hash_loop_reference: "hash_loop str = int (djb2_reference str)"
  using foldl_hash_step_reference [of 5381 str]
  by (simp add: hash_loop_def djb2_reference_def)

lemma digit_char_reference:
  "d < 16 \<Longrightarrow> digit_char d = of_char (hex_digit_reference d)"
proof -
  have "list_all (\<lambda>d. digit_char d = of_char (hex_digit_reference d)) [0..<16]"
    by (simp add: upt_rec digit_char_def)
  then show "d < 16 \<Longrightarrow> digit_char d = of_char (hex_digit_reference d)"
    by (simp add: list_all_iff del: hex_digit_reference.simps)
qed

lemma radix_digits_16_reference: "radix_digits 16 n = js (hex_reference n)"
proof (induction n rule: hex_reference.induct)
  case (1 n)
  show ?case
  proof (cases "n < 16")
    case True
    then show ?thesis
      by (simp add: radix_digits.simps [of 16 n] hex_reference.simps [of n] js_def
          digit_char_reference del: hex_digit_reference.simps)
  next
    case False
    then have "radix_digits 16 (n div 16) = js (hex_reference (n div 16))"
      using "1.IH" by simp
    with False show ?thesis
      by (simp add: radix_digits.simps [of 16 n] hex_reference.simps [of n] js_def
          digit_char_reference del: hex_digit_reference.simps)
  qed
qed

text \<open>
  C2. The loop of the source computes the reference djb2 variant on every string: one
  round \<open>((hash << 5) + hash) + c\<close> followed by \<open>>>> 0\<close> is \<open>(33 * h + c) mod 2 ^ 32\<close>, the
  fold from 5381 over the code units is the reference fold, and the value returned is the
  lowercase hexadecimal rendering of that unsigned 32-bit integer.
\<close>

theorem getHash_fold_is_djb2:
  "hash_step (int h) c = int ((33 * h + c) mod 2 ^ 32)
   \<and> hash_loop str = int (djb2_reference str)
   \<and> djb2_reference str < 2 ^ 32
   \<and> hash_string str = js (hex_reference (djb2_reference str))"
proof -
  have bound: "djb2_reference str < 2 ^ 32"
  proof (cases str rule: rev_cases)
    case Nil
    then show ?thesis by (simp add: djb2_reference_def)
  next
    case (snoc cs c)
    then show ?thesis by (simp add: djb2_reference_def)
  qed
  have "hash_string str = radix_digits 16 (djb2_reference str)"
    by (simp add: hash_string_def toString_radix_def hash_loop_reference)
  then show ?thesis
    using bound by (simp add: hash_step_reference hash_loop_reference radix_digits_16_reference)
qed

section \<open>Evaluating the model\<close>

lemma bind_result_simps [simp]:
  "bind_result (Inr x) f = f x"
  "bind_result (Inl e) f = Inl e"
  by (simp_all add: bind_result_def)

lemma radix_digits_numeral:
  "radix_digits b (numeral n) =
     (if b < 2 \<or> numeral n < b then [digit_char (numeral n)]
      else radix_digits b (numeral n div b) @ [digit_char (numeral n mod b)])"
  by (rule radix_digits.simps)

lemma radix_digits_0: "radix_digits b 0 = [digit_char 0]"
  by (subst radix_digits.simps) auto

lemma radix_digits_1: "radix_digits b 1 = [digit_char 1]"
  by (subst radix_digits.simps) auto

lemma radix_digits_Suc_0: "radix_digits b (Suc 0) = [digit_char (Suc 0)]"
  by (subst radix_digits.simps) auto

lemmas hash_eval = hash_string_def hash_loop_def hash_step_mod toString_radix_def
  radix_digits_numeral radix_digits_0 radix_digits_1 radix_digits_Suc_0 digit_char_def js_def

lemmas value_eval = get_field_def opt_field_def optdot_def js_or_def call_sort_def
  call_join_def call_slice_def call_toFixed_def optcall_toFixed_def Array_sort_def
  Array_join_def JSON_stringify_def Object_keys_def sorted_keys_def keyed_features_def
  fontMetrics_features_def Number_toString_def is_integral_def toString_radix_def
  radix_digits_numeral radix_digits_0 radix_digits_1 radix_digits_Suc_0 digit_char_def js_def

lemma AdvancedBrowserFingerprint_canonical_new:
  "AdvancedBrowserFingerprint_canonical F (JObj []) =
     Inr (js ''webgl:undefined|webgl_vendor:undefined||||audio:|audio_sr:|audio_ch:|canvas:|hw_cores:|hw_mem:|screen:undefinedxundefined|screen_depth:undefined|screen_dpr:undefined|tz:|tz_offset:|lang:|math_tan:|math_sin:|math_acos:|{}|platform:|vendor:|touch:0|speech:0|plugins:0|error:|rect:x'')"
  by (simp add: AdvancedBrowserFingerprint_canonical_def
      AdvancedBrowserFingerprint_stableFeatures_def value_eval)

lemma hash_string_canonical_new:
  "hash_string (js ''webgl:undefined|webgl_vendor:undefined||||audio:|audio_sr:|audio_ch:|canvas:|hw_cores:|hw_mem:|screen:undefinedxundefined|screen_depth:undefined|screen_dpr:undefined|tz:|tz_offset:|lang:|math_tan:|math_sin:|math_acos:|{}|platform:|vendor:|touch:0|speech:0|plugins:0|error:|rect:x'') = js ''c2429606''"
  by (simp add: hash_eval)

text \<open>
  C10. On an engine whose \<open>generate()\<close> has never run, \<open>this.fingerprint\<close> is \<open>{}\<close>:
  \<open>getHash()\<close> raises nothing, the canonical string is the one in which every feature
  has its default, the value returned is the hash of that string, and the fingerprint is
  left as it was.
\<close>

theorem getHash_before_generate:
  "AdvancedBrowserFingerprint_canonical F new_fingerprint =
     Inr (js ''webgl:undefined|webgl_vendor:undefined||||audio:|audio_sr:|audio_ch:|canvas:|hw_cores:|hw_mem:|screen:undefinedxundefined|screen_depth:undefined|screen_dpr:undefined|tz:|tz_offset:|lang:|math_tan:|math_sin:|math_acos:|{}|platform:|vendor:|touch:0|speech:0|plugins:0|error:|rect:x'')
   \<and> AdvancedBrowserFingerprint_getHash F new_fingerprint = (Inr (js ''c2429606''), new_fingerprint)"
  by (simp add: AdvancedBrowserFingerprint_getHash_def new_fingerprint_def
      AdvancedBrowserFingerprint_canonical_new hash_string_canonical_new
      sort_extensions_in_place_def get_field_def)

lemma CSSFingerprint_getHash_new:
  "CSSFingerprint_getHash F (JObj []) = Inr (js ''37d4172b'')"
proof -
  have "CSSFingerprint_stableFeatures F (JObj []) =
      Inr (map (\<lambda>s. JStr (js s)) [''sb:0x0'', ''grid:false'', ''subgrid:false'', ''vars:false'',
      ''fonts:0'', ''shadow:'', ''radius:''])"
    by (simp add: CSSFingerprint_stableFeatures_def value_eval)
  then have "CSSFingerprint_getHash F (JObj []) =
      Inr (hash_string (js ''sb:0x0|grid:false|subgrid:false|vars:false|fonts:0|shadow:|radius:''))"
    by (simp add: CSSFingerprint_getHash_def Array_join_def js_def)
  also have "hash_string (js ''sb:0x0|grid:false|subgrid:false|vars:false|fonts:0|shadow:|radius:'')
      = js ''37d4172b''"
    by (simp add: hash_eval)
  finally show ?thesis .
qed

lemma AdvancedCSSFingerprint_canonical_new:
  "AdvancedCSSFingerprint_canonical F (JObj []) =
     Inr (js ''fonts:0|colorScheme:undefined|reducedMotion:undefined|contrast:undefined|forcedColors:undefined|invertedColors:undefined|orientation:undefined|pointer:undefined|hover:undefined|displayMode:undefined|resolution:undefinedxundefined|dpr:undefined|colorGamut:undefined|dynamicRange:undefined|monochrome:undefined|grid:undefined|update:undefined'')"
  by (simp add: AdvancedCSSFingerprint_canonical_def AdvancedCSSFingerprint_features_def
      value_eval)

lemma AdvancedCSSFingerprint_getHash_new:
  "AdvancedCSSFingerprint_getHash F (JObj []) = Inr (js ''83132084'')"
proof -
  have "hash_string (js ''fonts:0|colorScheme:undefined|reducedMotion:undefined|contrast:undefined|forcedColors:undefined|invertedColors:undefined|orientation:undefined|pointer:undefined|hover:undefined|displayMode:undefined|resolution:undefinedxundefined|dpr:undefined|colorGamut:undefined|dynamicRange:undefined|monochrome:undefined|grid:undefined|update:undefined'') = js ''83132084''"
    by (simp add: hash_eval)
  then show ?thesis
    by (simp add: AdvancedCSSFingerprint_getHash_def AdvancedCSSFingerprint_canonical_new)
qed

section \<open>The hash members of CombinedCSSFingerprint.generate\<close>

lemma CSSFingerprint_getHash_scrollbar_15:
  "CSSFingerprint_getHash F basic_scrollbar_15 = Inr (js ''32dab817'')"
proof -
  have "CSSFingerprint_stableFeatures F basic_scrollbar_15 =
      Inr (map (\<lambda>s. JStr (js s)) [''sb:15x15'', ''grid:false'', ''subgrid:false'', ''vars:false'',
      ''fonts:0'', ''shadow:'', ''radius:''])"
    by (simp add: CSSFingerprint_stableFeatures_def basic_scrollbar_15_def value_eval)
  then have "CSSFingerprint_getHash F basic_scrollbar_15 =
      Inr (hash_string (js ''sb:15x15|grid:false|subgrid:false|vars:false|fonts:0|shadow:|radius:''))"
    by (simp add: CSSFingerprint_getHash_def Array_join_def js_def)
  also have "hash_string (js ''sb:15x15|grid:false|subgrid:false|vars:false|fonts:0|shadow:|radius:'')
      = js ''32dab817''"
    by (simp add: hash_eval)
  finally show ?thesis .
qed

lemma Promise_all_pair:
  "Promise_all [p, q] = Fulfilled rs \<Longrightarrow> \<exists>b a. p = Fulfilled b \<and> q = Fulfilled a \<and> rs = [b, a]"
  by (auto split: promise.splits)

lemma async_result_Fulfilled:
  "async_result r = Fulfilled v \<longleftrightarrow> r = Inr v"
  by (cases r) (simp_all add: async_result_def)

lemma bind_result_Inr:
  "bind_result r f = Inr y \<longleftrightarrow> (\<exists>x. r = Inr x \<and> f x = Inr y)"
  by (cases r) simp_all

text \<open>
  C5. Whatever the two engines generated, the \<open>hash\<close> members that
  \<open>CombinedCSSFingerprint.generate()\<close> puts beside their data are the hashes of two fresh
  engines, whose state is \<open>{}\<close>: always \<open>37d4172b\<close> and \<open>83132084\<close>. They are not the
  hashes of the data, which \<open>getCombinedHash\<close> computes for the \<open>combined\<close> member: for
  \<open>CSSFingerprint\<close> data with a 15 pixel scrollbar that hash is \<open>32dab817\<close>.
\<close>

theorem combined_generate_hash_fields:
  assumes "CombinedCSSFingerprint_generate F basic_generate advanced_generate = Fulfilled r"
  shows "get_field (get_field r ''basic'') ''hash'' = JStr (js ''37d4172b'')
    \<and> get_field (get_field r ''advanced'') ''hash'' = JStr (js ''83132084'')
    \<and> CSSFingerprint_getHash F new_fingerprint = Inr (js ''37d4172b'')
    \<and> AdvancedCSSFingerprint_getHash F new_fingerprint = Inr (js ''83132084'')
    \<and> CSSFingerprint_getHash F basic_scrollbar_15 = Inr (js ''32dab817'')"
proof -
  from assms obtain rs where all: "Promise_all [basic_generate, advanced_generate] = Fulfilled rs"
    by (auto simp: CombinedCSSFingerprint_generate_def split: promise.splits)
  then obtain b a where rs: "rs = [b, a]"
    using Promise_all_pair by blast
  from assms all rs obtain combined where
    r: "r = JObj
          [(js ''basic'', JObj [(js ''data'', b), (js ''hash'', JStr (js ''37d4172b''))]),
           (js ''advanced'', JObj [(js ''data'', a), (js ''hash'', JStr (js ''83132084''))]),
           (js ''combined'', JStr combined)]"
    by (auto simp: CombinedCSSFingerprint_generate_def async_result_Fulfilled
        CSSFingerprint_getHash_new AdvancedCSSFingerprint_getHash_new bind_result_Inr)
  have "get_field (get_field r ''basic'') ''hash'' = JStr (js ''37d4172b'')"
    unfolding r by (simp add: get_field_def js_def)
  moreover have "get_field (get_field r ''advanced'') ''hash'' = JStr (js ''83132084'')"
    unfolding r by (simp add: get_field_def js_def)
  ultimately show ?thesis
    by (simp add: new_fingerprint_def CSSFingerprint_getHash_new
        AdvancedCSSFingerprint_getHash_new CSSFingerprint_getHash_scrollbar_15)
qed

lemma getCombinedHash_scrollbar_15:
  "getCombinedHash F basic_scrollbar_15 new_fingerprint = Inr (js ''b96ec08a'')"
proof -
  have "hash_string (js ''32dab817'' @ js ''|'' @ js ''83132084'') = js ''b96ec08a''"
    by (simp add: hash_eval)
  then show ?thesis
    by (simp add: getCombinedHash_def CSSFingerprint_getHash_scrollbar_15
        new_fingerprint_def AdvancedCSSFingerprint_getHash_new)
qed

theorem combined_generate_hash_fields_witness:
  "CombinedCSSFingerprint_generate no_fractions (Fulfilled basic_scrollbar_15)
       (Fulfilled new_fingerprint) =
     Fulfilled (JObj
       [(js ''basic'', JObj [(js ''data'', basic_scrollbar_15), (js ''hash'', JStr (js ''37d4172b''))]),
        (js ''advanced'', JObj [(js ''data'', new_fingerprint), (js ''hash'', JStr (js ''83132084''))]),
        (js ''combined'', JStr (js ''b96ec08a''))])
   \<and> get_field (get_field (JObj
       [(js ''basic'', JObj [(js ''data'', basic_scrollbar_15), (js ''hash'', JStr (js ''37d4172b''))]),
        (js ''advanced'', JObj [(js ''data'', new_fingerprint), (js ''hash'', JStr (js ''83132084''))]),
        (js ''combined'', JStr (js ''b96ec08a''))]) ''basic'') ''hash'' = JStr (js ''37d4172b'')
   \<and> CSSFingerprint_getHash no_fractions basic_scrollbar_15 = Inr (js ''32dab817'')"
proof -
  have gen: "CombinedCSSFingerprint_generate no_fractions (Fulfilled basic_scrollbar_15)
       (Fulfilled new_fingerprint) =
     Fulfilled (JObj
       [(js ''basic'', JObj [(js ''data'', basic_scrollbar_15), (js ''hash'', JStr (js ''37d4172b''))]),
        (js ''advanced'', JObj [(js ''data'', new_fingerprint), (js ''hash'', JStr (js ''83132084''))]),
        (js ''combined'', JStr (js ''b96ec08a''))])"
    by (simp add: CombinedCSSFingerprint_generate_def async_result_def
        CSSFingerprint_getHash_new AdvancedCSSFingerprint_getHash_new
        getCombinedHash_scrollbar_15)
  show ?thesis
    using combined_generate_hash_fields [OF gen] gen by simp
qed

section \<open>The form of a hash\<close>

lemma digit_char_hex: "d < 16 \<Longrightarrow> digit_char d \<in> set (js ''0123456789abcdef'')"
  by (simp add: digit_char_def js_def) arith

lemma radix_digits_16_chars: "set (radix_digits 16 n) \<subseteq> set (js ''0123456789abcdef'')"
proof (induction n rule: less_induct)
  case (less n)
  show ?case
  proof (cases "n < 16")
    case True
    then show ?thesis
      using digit_char_hex [of n] by (simp add: radix_digits.simps [of 16 n])
  next
    case False
    then have "n div 16 < n" by simp
    then have "set (radix_digits 16 (n div 16)) \<subseteq> set (js ''0123456789abcdef'')"
      by (rule less.IH)
    moreover have "digit_char (n mod 16) \<in> set (js ''0123456789abcdef'')"
      by (rule digit_char_hex) simp
    ultimately show ?thesis
      using False by (simp add: radix_digits.simps [of 16 n])
  qed
qed

lemma radix_digits_16_length: "0 < k \<Longrightarrow> n < 16 ^ k \<Longrightarrow> length (radix_digits 16 n) \<le> k"
proof (induction k arbitrary: n)
  case 0
  then show ?case by simp
next
  case (Suc k)
  show ?case
  proof (cases "n < 16")
    case True
    then show ?thesis by (simp add: radix_digits.simps [of 16 n])
  next
    case False
    with Suc.prems have k: "0 < k"
      by (cases k) simp_all
    from Suc.prems have "n div 16 < 16 ^ k"
      by (simp add: less_mult_imp_div_less mult.commute)
    with k have "length (radix_digits 16 (n div 16)) \<le> k"
      by (rule Suc.IH)
    with False show ?thesis
      by (simp add: radix_digits.simps [of 16 n])
  qed
qed

lemma radix_digits_nonempty: "radix_digits b n \<noteq> []"
  by (subst radix_digits.simps) simp

lemma radix_digits_16_leading: "n \<noteq> 0 \<Longrightarrow> hd (radix_digits 16 n) \<noteq> 48"
proof (induction n rule: less_induct)
  case (less n)
  show ?case
  proof (cases "n < 16")
    case True
    with less.prems show ?thesis
      by (simp add: radix_digits.simps [of 16 n] digit_char_def)
  next
    case False
    then have "n div 16 < n" and "n div 16 \<noteq> 0" by simp_all
    then have "hd (radix_digits 16 (n div 16)) \<noteq> 48"
      by (rule less.IH)
    with False show ?thesis
      by (simp add: radix_digits.simps [of 16 n] radix_digits_nonempty)
  qed
qed

lemma hash_string_natural_hex:
  "hash_string str \<noteq> [] \<and> length (hash_string str) \<le> 8
   \<and> set (hash_string str) \<subseteq> set (js ''0123456789abcdef'')
   \<and> (hash_string str = js ''0'' \<or> hd (hash_string str) \<noteq> 48)"
proof -
  have eq: "hash_string str = radix_digits 16 (djb2_reference str)"
    by (simp add: hash_string_def toString_radix_def hash_loop_reference)
  have "djb2_reference str < 2 ^ 32"
  proof (cases str rule: rev_cases)
    case Nil
    then show ?thesis by (simp add: djb2_reference_def)
  next
    case (snoc cs c)
    then show ?thesis by (simp add: djb2_reference_def)
  qed
  then have "djb2_reference str < 16 ^ 8" by simp
  then have "length (radix_digits 16 (djb2_reference str)) \<le> 8"
    by (intro radix_digits_16_length) simp_all
  moreover have "radix_digits 16 (djb2_reference str) = js ''0''
      \<or> hd (radix_digits 16 (djb2_reference str)) \<noteq> 48"
  proof (cases "djb2_reference str = 0")
    case True
    then show ?thesis by (simp add: radix_digits_0 digit_char_def js_def)
  next
    case False
    then show ?thesis by (simp add: radix_digits_16_leading)
  qed
  ultimately show ?thesis
    unfolding eq using radix_digits_16_chars [of "djb2_reference str"]
    by (simp add: radix_digits_nonempty)
qed

text \<open>
  C7, as amended. A hash returned by \<open>getHash\<close> is the lowercase hexadecimal rendering of
  an unsigned 32-bit integer at its natural length: one to eight characters out of
  \<open>0-9a-f\<close>, with no leading zero and no padding to a fixed width.
\<close>

theorem getHash_natural_length_hex:
  "(fst (AdvancedBrowserFingerprint_getHash F fp) = Inr s \<longrightarrow>
      1 \<le> length s \<and> length s \<le> 8 \<and> set s \<subseteq> set (js ''0123456789abcdef'')
      \<and> (s = js ''0'' \<or> hd s \<noteq> 48))
   \<and> (AdvancedCSSFingerprint_getHash F r = Inr t \<longrightarrow>
      1 \<le> length t \<and> length t \<le> 8 \<and> set t \<subseteq> set (js ''0123456789abcdef'')
      \<and> (t = js ''0'' \<or> hd t \<noteq> 48))"
proof (intro conjI impI)
  assume "fst (AdvancedBrowserFingerprint_getHash F fp) = Inr s"
  then obtain str where s: "s = hash_string str"
    by (auto simp: AdvancedBrowserFingerprint_getHash_def bind_result_Inr)
  show "1 \<le> length s" "length s \<le> 8" "set s \<subseteq> set (js ''0123456789abcdef'')"
    "s = js ''0'' \<or> hd s \<noteq> 48"
    unfolding s using hash_string_natural_hex [of str]
    by (simp_all add: Suc_le_eq)
next
  assume "AdvancedCSSFingerprint_getHash F r = Inr t"
  then obtain str where t: "t = hash_string str"
    by (auto simp: AdvancedCSSFingerprint_getHash_def bind_result_Inr)
  show "1 \<le> length t" "length t \<le> 8" "set t \<subseteq> set (js ''0123456789abcdef'')"
    "t = js ''0'' \<or> hd t \<noteq> 48"
    unfolding t using hash_string_natural_hex [of str]
    by (simp_all add: Suc_le_eq)
qed

lemma AdvancedBrowserFingerprint_canonical_2_cores_4_GB:
  "AdvancedBrowserFingerprint_canonical F fingerprint_2_cores_4_GB =
     Inr (js ''webgl:undefined|webgl_vendor:undefined||||audio:|audio_sr:|audio_ch:|canvas:|hw_cores:2|hw_mem:4|screen:undefinedxundefined|screen_depth:undefined|screen_dpr:undefined|tz:|tz_offset:|lang:|math_tan:|math_sin:|math_acos:|{}|platform:|vendor:|touch:0|speech:0|plugins:0|error:|rect:x'')"
  by (simp add: AdvancedBrowserFingerprint_canonical_def fingerprint_2_cores_4_GB_def
      AdvancedBrowserFingerprint_stableFeatures_def value_eval)

lemma getHash_2_cores_4_GB:
  "fst (AdvancedBrowserFingerprint_getHash F fingerprint_2_cores_4_GB) = Inr (js ''c1ebccc'')"
proof -
  have "hash_string (js ''webgl:undefined|webgl_vendor:undefined||||audio:|audio_sr:|audio_ch:|canvas:|hw_cores:2|hw_mem:4|screen:undefinedxundefined|screen_depth:undefined|screen_dpr:undefined|tz:|tz_offset:|lang:|math_tan:|math_sin:|math_acos:|{}|platform:|vendor:|touch:0|speech:0|plugins:0|error:|rect:x'') = js ''c1ebccc''"
    by (simp add: hash_eval)
  then show ?thesis
    by (simp add: AdvancedBrowserFingerprint_getHash_def
        AdvancedBrowserFingerprint_canonical_2_cores_4_GB)
qed

theorem getHash_natural_length_hex_witness:
  "fst (AdvancedBrowserFingerprint_getHash no_fractions fingerprint_2_cores_4_GB) = Inr (js ''c1ebccc'')
   \<and> AdvancedCSSFingerprint_getHash no_fractions new_fingerprint = Inr (js ''83132084'')
   \<and> 1 \<le> length (js ''c1ebccc'') \<and> length (js ''c1ebccc'') \<le> 8
   \<and> 1 \<le> length (js ''83132084'') \<and> length (js ''83132084'') \<le> 8"
  using getHash_natural_length_hex [of no_fractions fingerprint_2_cores_4_GB "js ''c1ebccc''"
      new_fingerprint "js ''83132084''"]
    getHash_2_cores_4_GB [of no_fractions] AdvancedCSSFingerprint_getHash_new [of no_fractions]
  by (simp add: new_fingerprint_def)

lemma getHash_new_fingerprint:
  "fst (AdvancedBrowserFingerprint_getHash F new_fingerprint) = Inr (js ''c2429606'')"
  by (simp add: AdvancedBrowserFingerprint_getHash_def new_fingerprint_def
      AdvancedBrowserFingerprint_canonical_new hash_string_canonical_new)

text \<open>
  C7 as stated fails: the hash of a fresh fingerprint has eight characters, the hash of
  a fingerprint with two cores and 4 GB of memory has seven.
\<close>

theorem getHash_width_varies:
  "fst (AdvancedBrowserFingerprint_getHash no_fractions new_fingerprint) = Inr (js ''c2429606'')
   \<and> fst (AdvancedBrowserFingerprint_getHash no_fractions fingerprint_2_cores_4_GB) = Inr (js ''c1ebccc'')
   \<and> length (js ''c2429606'') = 8 \<and> length (js ''c1ebccc'') = 7"
  using getHash_2_cores_4_GB [of no_fractions] getHash_new_fingerprint [of no_fractions]
  by (simp add: js_def)

section \<open>The composite hash\<close>

lemma AdvancedCSSFingerprint_features_400x800:
  "AdvancedCSSFingerprint_features F advanced_400x800 =
     Inr (map (\<lambda>s. JStr (js s))
       [''fonts:0'', ''colorScheme:undefined'', ''reducedMotion:undefined'', ''contrast:undefined'',
        ''forcedColors:undefined'', ''invertedColors:undefined'', ''orientation:undefined'',
        ''pointer:undefined'', ''hover:undefined'', ''displayMode:undefined'',
        ''resolution:400x800'', ''dpr:undefined'', ''colorGamut:undefined'',
        ''dynamicRange:undefined'', ''monochrome:undefined'', ''grid:undefined'',
        ''update:undefined''])"
  by (simp add: AdvancedCSSFingerprint_features_def advanced_400x800_def value_eval)

lemma AdvancedCSSFingerprint_features_400x800_progressive:
  "AdvancedCSSFingerprint_features F advanced_400x800_progressive =
     AdvancedCSSFingerprint_features F advanced_400x800"
  by (simp add: AdvancedCSSFingerprint_features_def advanced_400x800_def
      advanced_400x800_progressive_def value_eval)

lemma AdvancedCSSFingerprint_features_599x1022:
  "AdvancedCSSFingerprint_features F advanced_599x1022 =
     Inr (map (\<lambda>s. JStr (js s))
       [''fonts:0'', ''colorScheme:undefined'', ''reducedMotion:undefined'', ''contrast:undefined'',
        ''forcedColors:undefined'', ''invertedColors:undefined'', ''orientation:undefined'',
        ''pointer:undefined'', ''hover:undefined'', ''displayMode:undefined'',
        ''resolution:599x1022'', ''dpr:undefined'', ''colorGamut:undefined'',
        ''dynamicRange:undefined'', ''monochrome:undefined'', ''grid:undefined'',
        ''update:undefined''])"
  by (simp add: AdvancedCSSFingerprint_features_def advanced_599x1022_def value_eval)

lemma AdvancedCSSFingerprint_getHash_400x800:
  "AdvancedCSSFingerprint_getHash F advanced_400x800 = Inr (js ''14d5f98c'')"
proof -
  have "AdvancedCSSFingerprint_canonical F advanced_400x800 = Inr (js ''fonts:0|colorScheme:undefined|reducedMotion:undefined|contrast:undefined|forcedColors:undefined|invertedColors:undefined|orientation:undefined|pointer:undefined|hover:undefined|displayMode:undefined|resolution:400x800|dpr:undefined|colorGamut:undefined|dynamicRange:undefined|monochrome:undefined|grid:undefined|update:undefined'')"
    by (simp add: AdvancedCSSFingerprint_canonical_def AdvancedCSSFingerprint_features_400x800
        Array_join_def js_def)
  moreover have "hash_string (js ''fonts:0|colorScheme:undefined|reducedMotion:undefined|contrast:undefined|forcedColors:undefined|invertedColors:undefined|orientation:undefined|pointer:undefined|hover:undefined|displayMode:undefined|resolution:400x800|dpr:undefined|colorGamut:undefined|dynamicRange:undefined|monochrome:undefined|grid:undefined|update:undefined'') = js ''14d5f98c''"
    by (simp add: hash_eval)
  ultimately show ?thesis
    by (simp add: AdvancedCSSFingerprint_getHash_def)
qed

lemma AdvancedCSSFingerprint_getHash_599x1022:
  "AdvancedCSSFingerprint_getHash F advanced_599x1022 = Inr (js ''14d5f98c'')"
proof -
  have "AdvancedCSSFingerprint_canonical F advanced_599x1022 = Inr (js ''fonts:0|colorScheme:undefined|reducedMotion:undefined|contrast:undefined|forcedColors:undefined|invertedColors:undefined|orientation:undefined|pointer:undefined|hover:undefined|displayMode:undefined|resolution:599x1022|dpr:undefined|colorGamut:undefined|dynamicRange:undefined|monochrome:undefined|grid:undefined|update:undefined'')"
    by (simp add: AdvancedCSSFingerprint_canonical_def AdvancedCSSFingerprint_features_599x1022
        Array_join_def js_def)
  moreover have "hash_string (js ''fonts:0|colorScheme:undefined|reducedMotion:undefined|contrast:undefined|forcedColors:undefined|invertedColors:undefined|orientation:undefined|pointer:undefined|hover:undefined|displayMode:undefined|resolution:599x1022|dpr:undefined|colorGamut:undefined|dynamicRange:undefined|monochrome:undefined|grid:undefined|update:undefined'') = js ''14d5f98c''"
    by (simp add: hash_eval)
  ultimately show ?thesis
    by (simp add: AdvancedCSSFingerprint_getHash_def)
qed

text \<open>
  C4, as amended. The composite hash is a function of the two engines' stable feature
  lists: results with the same stable features give the same composite hash, so the
  composite hash changes only if the stable features of one of the engines change. The
  converse is not claimed.
\<close>

theorem getCombinedHash_of_stable_features:
  assumes "CSSFingerprint_stableFeatures F basic = CSSFingerprint_stableFeatures F basic'"
    and "AdvancedCSSFingerprint_features F advanced = AdvancedCSSFingerprint_features F advanced'"
  shows "getCombinedHash F basic advanced = getCombinedHash F basic' advanced'"
  using assms
  by (simp add: getCombinedHash_def CSSFingerprint_getHash_def AdvancedCSSFingerprint_getHash_def
      AdvancedCSSFingerprint_canonical_def)

theorem getCombinedHash_of_stable_features_witness:
  "CSSFingerprint_stableFeatures no_fractions basic_scrollbar_15 =
     CSSFingerprint_stableFeatures no_fractions basic_scrollbar_15
   \<and> AdvancedCSSFingerprint_features no_fractions advanced_400x800_progressive =
     AdvancedCSSFingerprint_features no_fractions advanced_400x800
   \<and> advanced_400x800_progressive \<noteq> advanced_400x800
   \<and> getCombinedHash no_fractions basic_scrollbar_15 advanced_400x800_progressive =
     getCombinedHash no_fractions basic_scrollbar_15 advanced_400x800"
  using getCombinedHash_of_stable_features [of no_fractions basic_scrollbar_15
      basic_scrollbar_15 advanced_400x800_progressive advanced_400x800]
    AdvancedCSSFingerprint_features_400x800_progressive [of no_fractions]
  by (simp add: advanced_400x800_progressive_def advanced_400x800_def)

text \<open>
  C4 as stated fails in the other direction: a screen of 400 by 800 and one of 599 by
  1022 give \<open>AdvancedCSSFingerprint\<close> different stable features and the same hash, hence
  the same composite hash.
\<close>

theorem getCombinedHash_collision:
  "AdvancedCSSFingerprint_features no_fractions advanced_400x800 \<noteq>
     AdvancedCSSFingerprint_features no_fractions advanced_599x1022
   \<and> getCombinedHash no_fractions new_fingerprint advanced_400x800 = Inr (js ''ab92a137'')
   \<and> getCombinedHash no_fractions new_fingerprint advanced_599x1022 = Inr (js ''ab92a137'')"
proof (intro conjI)
  show "AdvancedCSSFingerprint_features no_fractions advanced_400x800 \<noteq>
     AdvancedCSSFingerprint_features no_fractions advanced_599x1022"
    by (simp add: AdvancedCSSFingerprint_features_400x800
        AdvancedCSSFingerprint_features_599x1022 js_def)
  have combined: "hash_string (js ''37d4172b'' @ js ''|'' @ js ''14d5f98c'') = js ''ab92a137''"
    by (simp add: hash_eval)
  show "getCombinedHash no_fractions new_fingerprint advanced_400x800 = Inr (js ''ab92a137'')"
    by (simp add: getCombinedHash_def new_fingerprint_def CSSFingerprint_getHash_new
        AdvancedCSSFingerprint_getHash_400x800 combined)
  show "getCombinedHash no_fractions new_fingerprint advanced_599x1022 = Inr (js ''ab92a137'')"
    by (simp add: getCombinedHash_def new_fingerprint_def CSSFingerprint_getHash_new
        AdvancedCSSFingerprint_getHash_599x1022 combined)
qed

section \<open>What generate returns\<close>

lemma Promise_all_Rejected:
  "Rejected e \<in> set ps \<Longrightarrow> \<exists>e'. Promise_all ps = Rejected e'"
proof (induction ps)
  case Nil
  then show ?case by simp
next
  case (Cons p ps)
  show ?case
  proof (cases "p = Rejected e")
    case True
    then show ?thesis by simp
  next
    case False
    with Cons.prems have "Rejected e \<in> set ps" by simp
    then obtain e' where "Promise_all ps = Rejected e'"
      using Cons.IH by blast
    then show ?thesis
      by (cases p) simp_all
  qed
qed

lemma generate_Rejected:
  assumes "Rejected e \<in> set (probes h)"
  shows "\<exists>e'. AdvancedBrowserFingerprint_generate h fp0 = (Rejected e', fp0)"
proof -
  from assms obtain e' where "Promise_all (probes h) = Rejected e'"
    using Promise_all_Rejected by blast
  then show ?thesis
    by (simp add: AdvancedBrowserFingerprint_generate_def)
qed

lemma detectPlugins_undefined:
  "navigator_plugins h = None \<Longrightarrow> detectPlugins h = Rejected TypeError"
  by (simp add: detectPlugins_def async_result_def)

lemma detectWebRTCFingerprint_executor_throws:
  "RTCPeerConnection_lookup h = Inr True \<Longrightarrow> WebRTC_executor h = Inl e \<Longrightarrow>
     detectWebRTCFingerprint h = Rejected e"
  by (simp add: detectWebRTCFingerprint_def try_return_new_Promise_def async_result_def)

text \<open>
  C1. The claim is that an exception inside any probe is turned into the absence
  sentinel at the probe boundary and that \<open>generate()\<close> never raises. The source guards
  only some probes. On a host whose \<open>navigator.plugins\<close> is \<open>undefined\<close>,
  \<open>detectPlugins\<close> (no \<open>try\<close>) rejects; on a host whose WebRTC constructor throws, the
  promise that \<open>detectWebRTCFingerprint\<close> returns without \<open>await\<close> rejects past its
  \<open>catch\<close>. In both cases \<open>Promise.all\<close> rejects, \<open>generate()\<close> raises, and
  \<open>this.fingerprint\<close> is not assigned.
\<close>

theorem generate_rejects:
  "(navigator_plugins h = None \<longrightarrow>
      (\<exists>e'. AdvancedBrowserFingerprint_generate h fp0 = (Rejected e', fp0)))
   \<and> (RTCPeerConnection_lookup h = Inr True \<and> WebRTC_executor h = Inl e \<longrightarrow>
      (\<exists>e'. AdvancedBrowserFingerprint_generate h fp0 = (Rejected e', fp0)))"
proof (intro conjI impI)
  assume "navigator_plugins h = None"
  then have "Rejected TypeError \<in> set (probes h)"
    by (simp add: probes_def detectPlugins_undefined)
  then show "\<exists>e'. AdvancedBrowserFingerprint_generate h fp0 = (Rejected e', fp0)"
    by (rule generate_Rejected)
next
  assume "RTCPeerConnection_lookup h = Inr True \<and> WebRTC_executor h = Inl e"
  then have "Rejected e \<in> set (probes h)"
    by (simp add: probes_def detectWebRTCFingerprint_executor_throws)
  then show "\<exists>e'. AdvancedBrowserFingerprint_generate h fp0 = (Rejected e', fp0)"
    by (rule generate_Rejected)
qed

lemmas probe_eval = probes_def detectWebGLFingerprint_def detectAudioContext_def
  detectCanvasFingerprint_def detectWebRTCFingerprint_def detectHardwareConcurrency_def
  detectDeviceMemory_def detectBatteryAPI_def detectTimezoneOffset_def detectLanguages_def
  detectPlugins_def detectMimeTypes_def detectTouchSupport_def detectMaxTouchPoints_def
  detectScreenDetails_def detectNavigatorProperties_def detectPerformanceMetrics_def
  detectWebGLRenderer_def detectWebGLVendor_def detectCanvasTextMetrics_def
  detectMathConstants_def detectErrorStackTrace_def detectDOMRectPrecision_def
  detectSpeechSynthesis_def detectMediaDevices_def detectGamepadAPI_def
  detectVibrationAPI_def detectNetworkInformation_def detectStorageQuota_def
  detectIndexedDBQuirks_def detectWebAssemblySupport_def try_catch_null_def
  try_catch_null_await_def no_try_def try_return_new_Promise_def async_result_def

lemma generate_host_without_plugins:
  "AdvancedBrowserFingerprint_generate host_without_plugins new_fingerprint =
     (Rejected TypeError, new_fingerprint)"
  by (simp add: AdvancedBrowserFingerprint_generate_def host_without_plugins_def
      quiet_host_def probe_eval)

lemma generate_host_webrtc_throws:
  "AdvancedBrowserFingerprint_generate host_webrtc_throws new_fingerprint =
     (Rejected HostError, new_fingerprint)"
  by (simp add: AdvancedBrowserFingerprint_generate_def host_webrtc_throws_def
      quiet_host_def probe_eval)

theorem generate_rejects_witness:
  "navigator_plugins host_without_plugins = None
   \<and> AdvancedBrowserFingerprint_generate host_without_plugins new_fingerprint =
       (Rejected TypeError, new_fingerprint)
   \<and> RTCPeerConnection_lookup host_webrtc_throws = Inr True
   \<and> WebRTC_executor host_webrtc_throws = Inl HostError
   \<and> AdvancedBrowserFingerprint_generate host_webrtc_throws new_fingerprint =
       (Rejected HostError, new_fingerprint)"
  using generate_rejects [of host_without_plugins new_fingerprint HostError]
    generate_rejects [of host_webrtc_throws new_fingerprint HostError]
    generate_host_without_plugins generate_host_webrtc_throws
  by (simp add: host_without_plugins_def host_webrtc_throws_def quiet_host_def)

lemma Object_keys_assemble: "Object_keys (assemble results) = Inr (map js fingerprint_keys)"
  by (simp add: assemble_def Object_keys_def fingerprint_keys_def)

lemma distinct_fingerprint_keys: "distinct (map js fingerprint_keys)"
  by (simp add: fingerprint_keys_def js_def)

text \<open>
  A record that \<open>generate()\<close> returns is built by one object literal: it has the thirty
  keys \<open>webgl\<close> to \<open>webAssembly\<close>, and it is what \<open>this.fingerprint\<close> then holds.
\<close>

lemma generate_Fulfilled_key_set:
  assumes "fst (AdvancedBrowserFingerprint_generate h fp0) = Fulfilled fp"
  shows "Object_keys fp = Inr (map js fingerprint_keys)
    \<and> snd (AdvancedBrowserFingerprint_generate h fp0) = fp"
proof -
  from assms obtain results where
    "Promise_all (probes h) = Fulfilled results" and "fp = assemble results"
    by (auto simp: AdvancedBrowserFingerprint_generate_def split: promise.splits)
  then show ?thesis
    by (simp add: AdvancedBrowserFingerprint_generate_def Object_keys_assemble)
qed

lemma generate_host_webgl_throws:
  "AdvancedBrowserFingerprint_generate host_webgl_throws new_fingerprint =
     (Fulfilled (assemble
        [JNull, JNull, JNull, JNull, JNull, JNull, JNull, JNull, JNull, JArr [], JArr [],
         JNull, JNum (Fin 0), JNull, JNull, JNull, JNull, JNull, JNull, JNull, JNull, JNull,
         JNull, JNull, JNull, JBool False, JNull, JNull, JNull, JNull]),
      assemble
        [JNull, JNull, JNull, JNull, JNull, JNull, JNull, JNull, JNull, JArr [], JArr [],
         JNull, JNum (Fin 0), JNull, JNull, JNull, JNull, JNull, JNull, JNull, JNull, JNull,
         JNull, JNull, JNull, JBool False, JNull, JNull, JNull, JNull])"
  by (simp add: AdvancedBrowserFingerprint_generate_def host_webgl_throws_def
      quiet_host_def probe_eval)

lemma get_field_assemble_webgl: "get_field (assemble results) ''webgl'' = results ! 0"
  by (simp add: assemble_def get_field_def)

text \<open>
  C8. The claim is that every invocation of \<open>generate()\<close>, whichever probes fail, gives
  a fingerprint record with the same thirty keys, \<open>webgl\<close> to \<open>webAssembly\<close>. The source
  does so where the failing probe has a \<open>try\<close>/\<open>catch\<close>: on the host whose WebGL probe
  body throws, \<open>this.fingerprint\<close> holds all thirty keys, with \<open>webgl: null\<close>. It does
  not where the failing probe has none: on the host whose \<open>navigator.plugins\<close> is
  \<open>undefined\<close>, \<open>detectPlugins\<close> rejects, \<open>generate()\<close> rejects with the TypeError and
  returns no record, and \<open>this.fingerprint\<close> is still the \<open>{}\<close> of the constructor, with
  no key at all.
\<close>

theorem generate_key_set_lost:
  "navigator_plugins host_without_plugins = None
   \<and> fst (AdvancedBrowserFingerprint_generate host_without_plugins new_fingerprint) =
       Rejected TypeError
   \<and> Object_keys (snd (AdvancedBrowserFingerprint_generate host_without_plugins new_fingerprint)) =
       Inr []
   \<and> WebGLFingerprint_body host_webgl_throws = Inl HostError
   \<and> Object_keys (snd (AdvancedBrowserFingerprint_generate host_webgl_throws new_fingerprint)) =
       Inr (map js fingerprint_keys)
   \<and> get_field (snd (AdvancedBrowserFingerprint_generate host_webgl_throws new_fingerprint))
       ''webgl'' = JNull
   \<and> length fingerprint_keys = 30"
proof -
  have "navigator_plugins host_without_plugins = None"
    by (simp add: host_without_plugins_def)
  moreover have "fst (AdvancedBrowserFingerprint_generate host_without_plugins new_fingerprint) =
      Rejected TypeError"
    by (simp add: generate_host_without_plugins)
  moreover have
    "Object_keys (snd (AdvancedBrowserFingerprint_generate host_without_plugins new_fingerprint)) =
       Inr []"
    by (simp only: generate_host_without_plugins snd_conv)
      (simp add: new_fingerprint_def Object_keys_def)
  moreover have "WebGLFingerprint_body host_webgl_throws = Inl HostError"
    by (simp add: host_webgl_throws_def)
  moreover have
    "Object_keys (snd (AdvancedBrowserFingerprint_generate host_webgl_throws new_fingerprint)) =
       Inr (map js fingerprint_keys)"
    by (simp only: generate_host_webgl_throws snd_conv Object_keys_assemble)
  moreover have
    "get_field (snd (AdvancedBrowserFingerprint_generate host_webgl_throws new_fingerprint))
       ''webgl'' = JNull"
    by (simp only: generate_host_webgl_throws snd_conv get_field_assemble_webgl) simp
  moreover have "length fingerprint_keys = 30"
    by (simp add: fingerprint_keys_def)
  ultimately show ?thesis
    by blast
qed

section \<open>What getHash reads\<close>

lemma js_eq_iff [simp]: "js a = js b \<longleftrightarrow> a = b"
proof -
  have "inj (of_char :: char \<Rightarrow> nat)"
    by (rule injI) simp
  then show ?thesis
    by (simp add: js_def inj_map_eq_map)
qed

lemma stableFeatures_reads:
  assumes "\<And>k. k \<in> set [''webgl'', ''audio'', ''languages'', ''webglRenderer'', ''webglVendor'',
      ''canvas'', ''hardwareConcurrency'', ''deviceMemory'', ''screen'', ''timezone'',
      ''mathConstants'', ''canvasTextMetrics'', ''navigator'', ''maxTouchPoints'',
      ''speechSynthesis'', ''plugins'', ''errorStack'', ''domRect''] \<Longrightarrow>
      get_field fp k = get_field fp' k"
    and "nullish fp = nullish fp'"
  shows "AdvancedBrowserFingerprint_stableFeatures F fp =
    AdvancedBrowserFingerprint_stableFeatures F fp'"
  unfolding AdvancedBrowserFingerprint_stableFeatures_def
  by (simp add: assms)

text \<open>
  C6. Two fingerprint records that agree on every field other than \<open>battery\<close>,
  \<open>network\<close>, \<open>performance\<close> (the field that holds \<open>memory\<close>) and \<open>storageQuota\<close>
  give \<open>getHash\<close> the same result: none of these fields is read.
\<close>

theorem getHash_ignores_volatile_fields:
  assumes "\<forall>k. k \<notin> set (map js volatile_fields) \<longrightarrow> get_prop (JObj kvs) k = get_prop (JObj kvs') k"
  shows "fst (AdvancedBrowserFingerprint_getHash F (JObj kvs)) =
    fst (AdvancedBrowserFingerprint_getHash F (JObj kvs'))"
proof -
  have "AdvancedBrowserFingerprint_stableFeatures F (JObj kvs) =
      AdvancedBrowserFingerprint_stableFeatures F (JObj kvs')"
  proof (rule stableFeatures_reads)
    fix k
    assume "k \<in> set [''webgl'', ''audio'', ''languages'', ''webglRenderer'', ''webglVendor'',
      ''canvas'', ''hardwareConcurrency'', ''deviceMemory'', ''screen'', ''timezone'',
      ''mathConstants'', ''canvasTextMetrics'', ''navigator'', ''maxTouchPoints'',
      ''speechSynthesis'', ''plugins'', ''errorStack'', ''domRect'']"
    then have "k \<notin> set volatile_fields"
      by (auto simp: volatile_fields_def)
    then have "js k \<notin> set (map js volatile_fields)"
      by auto
    with assms show "get_field (JObj kvs) k = get_field (JObj kvs') k"
      unfolding get_field_def by blast
  next
    show "nullish (JObj kvs) = nullish (JObj kvs')" by simp
  qed
  then show ?thesis
    by (simp add: AdvancedBrowserFingerprint_getHash_def AdvancedBrowserFingerprint_canonical_def)
qed


theorem getHash_ignores_volatile_fields_witness:
  "fst (AdvancedBrowserFingerprint_getHash no_fractions fingerprint_morning) =
     fst (AdvancedBrowserFingerprint_getHash no_fractions fingerprint_evening)
   \<and> get_field fingerprint_morning ''battery'' \<noteq> get_field fingerprint_evening ''battery''
   \<and> get_field fingerprint_morning ''network'' \<noteq> get_field fingerprint_evening ''network''
   \<and> get_field fingerprint_morning ''performance'' \<noteq> get_field fingerprint_evening ''performance''
   \<and> get_field fingerprint_morning ''storageQuota'' \<noteq> get_field fingerprint_evening ''storageQuota''"
proof -
  have "\<forall>k. k \<notin> set (map js volatile_fields) \<longrightarrow>
      get_prop fingerprint_morning k = get_prop fingerprint_evening k"
    by (simp add: fingerprint_morning_def fingerprint_evening_def volatile_fields_def)
  then have "fst (AdvancedBrowserFingerprint_getHash no_fractions fingerprint_morning) =
     fst (AdvancedBrowserFingerprint_getHash no_fractions fingerprint_evening)"
    unfolding fingerprint_morning_def fingerprint_evening_def
    by (rule getHash_ignores_volatile_fields)
  then show ?thesis
    by (simp add: fingerprint_morning_def fingerprint_evening_def get_field_def)
qed

section \<open>Property updates and the default sort\<close>

lemma get_prop_put_own:
  "get_prop (JObj (put_own k v kvs)) k' = (if k' = k then v else get_prop (JObj kvs) k')"
  by (induction kvs) auto

lemma put_own_twice: "put_own k v (put_own k v' kvs) = put_own k v kvs"
  by (induction kvs) auto

lemma get_field_put_own:
  "get_field (JObj (put_own (js k) v kvs)) k' = (if k' = k then v else get_field (JObj kvs) k')"
  unfolding get_field_def by (subst get_prop_put_own) simp

lemma opt_field_JObj: "opt_field (JObj kvs) k = get_field (JObj kvs) k"
  by (simp add: opt_field_def optdot_def get_field_def)

lemma nullish_iff: "nullish v \<longleftrightarrow> v = JUndefined \<or> v = JNull"
  by (cases v) simp_all

lemma is_undefined_iff: "is_undefined v \<longleftrightarrow> v = JUndefined"
  by (cases v) simp_all

lemma js_or_JArr: "js_or (JArr xs) b = JArr xs"
  by (simp add: js_or_def)

lemma map_insort_key: "map f (insort_key f x ys) = insort (f x) (map f ys)"
  by (induction ys) simp_all

lemma map_sort_key: "map f (sort_key f xs) = sort (map f xs)"
  by (induction xs) (simp_all add: map_insort_key)

lemma sort_mset_cong: "mset xs = mset ys \<Longrightarrow> sort xs = sort ys"
  by (rule properties_for_sort) simp_all

lemma Array_sort_idem: "Array_sort F (Array_sort F xs) = Array_sort F xs"
proof -
  let ?A = "sort_key (ToString F) (filter (\<lambda>v. \<not> is_undefined v) xs)"
  let ?B = "filter is_undefined xs"
  have A: "filter (\<lambda>v. \<not> is_undefined v) ?A = ?A" "filter is_undefined ?A = []"
    by (simp_all add: filter_empty_conv)
  have B: "filter (\<lambda>v. \<not> is_undefined v) ?B = []" "filter is_undefined ?B = ?B"
    by (simp_all add: filter_empty_conv)
  have "sort_key (ToString F) ?A = ?A"
    by (rule sort_key_id_if_sorted) simp
  with A B show ?thesis
    by (simp add: Array_sort_def)
qed

lemma map_ToString_Array_sort:
  "map (ToString F) (Array_sort F xs) =
     sort (map (ToString F) (filter (\<lambda>v. \<not> is_undefined v) xs))
       @ replicate (length (filter is_undefined xs)) (js ''undefined'')"
proof -
  have "map (ToString F) (filter is_undefined xs) =
      replicate (length (filter is_undefined xs)) (js ''undefined'')"
  proof (induction xs)
    case Nil
    show ?case by simp
  next
    case (Cons x xs)
    then show ?case by (cases x) simp_all
  qed
  then show ?thesis
    by (simp add: Array_sort_def map_sort_key)
qed

lemma map_ToString_Array_sort_cong:
  assumes "mset xs = mset ys"
  shows "map (ToString F) (Array_sort F xs) = map (ToString F) (Array_sort F ys)"
proof -
  have "mset (filter P xs) = mset (filter P ys)" for P :: "jsval \<Rightarrow> bool"
    using assms by simp
  then have "mset (map (ToString F) (filter (\<lambda>v. \<not> is_undefined v) xs)) =
      mset (map (ToString F) (filter (\<lambda>v. \<not> is_undefined v) ys))"
    and "length (filter is_undefined xs) = length (filter is_undefined ys)"
    by (simp, metis size_mset)
  then have "sort (map (ToString F) (filter (\<lambda>v. \<not> is_undefined v) xs)) =
      sort (map (ToString F) (filter (\<lambda>v. \<not> is_undefined v) ys))"
    and "length (filter is_undefined xs) = length (filter is_undefined ys)"
    by (simp_all add: sort_mset_cong)
  then show ?thesis
    by (simp add: map_ToString_Array_sort)
qed

lemma join_items_Array_sort:
  assumes "JNull \<notin> set xs"
  shows "map (\<lambda>v. if nullish v then [] else ToString F v) (Array_sort F xs) =
     sort (map (ToString F) (filter (\<lambda>v. \<not> is_undefined v) xs))
       @ replicate (length (filter is_undefined xs)) []"
proof -
  have undefs: "map (\<lambda>v. if nullish v then [] else ToString F v) (filter is_undefined xs) =
      replicate (length (filter is_undefined xs)) []"
  proof (induction xs)
    case Nil
    show ?case by simp
  next
    case (Cons x xs)
    then show ?case by (cases x) simp_all
  qed
  have "\<not> nullish v" if "v \<in> set xs" "\<not> is_undefined v" for v
    using that assms by (auto simp: nullish_iff is_undefined_iff)
  then have "map (\<lambda>v. if nullish v then [] else ToString F v)
        (sort_key (ToString F) (filter (\<lambda>v. \<not> is_undefined v) xs)) =
      map (ToString F) (sort_key (ToString F) (filter (\<lambda>v. \<not> is_undefined v) xs))"
    by (intro map_cong) auto
  with undefs show ?thesis
    by (simp add: Array_sort_def map_sort_key)
qed

lemma Array_join_Array_sort_cong:
  assumes "mset xs = mset ys" and "JNull \<notin> set xs"
  shows "Array_join F sep (Array_sort F xs) = Array_join F sep (Array_sort F ys)"
proof -
  from assms have ys: "JNull \<notin> set ys"
    by (metis mset_eq_setD)
  have "mset (filter P xs) = mset (filter P ys)" for P :: "jsval \<Rightarrow> bool"
    using assms by simp
  then have "mset (map (ToString F) (filter (\<lambda>v. \<not> is_undefined v) xs)) =
      mset (map (ToString F) (filter (\<lambda>v. \<not> is_undefined v) ys))"
    and "length (filter is_undefined xs) = length (filter is_undefined ys)"
    by (simp, metis size_mset)
  then have "sort (map (ToString F) (filter (\<lambda>v. \<not> is_undefined v) xs)) =
      sort (map (ToString F) (filter (\<lambda>v. \<not> is_undefined v) ys))"
    and "length (filter is_undefined xs) = length (filter is_undefined ys)"
    by (simp_all add: sort_mset_cong)
  then show ?thesis
    by (simp add: Array_join_def join_items_Array_sort assms ys)
qed

section \<open>Calling getHash again\<close>

lemma sort_extensions_in_place_disj:
  "(\<exists>kvs wkvs xs. fp = JObj kvs \<and> get_field fp ''webgl'' = JObj wkvs
      \<and> get_field (JObj wkvs) ''extensions'' = JArr xs
      \<and> sort_extensions_in_place F fp =
         JObj (put_own (js ''webgl'')
           (JObj (put_own (js ''extensions'') (JArr (Array_sort F xs)) wkvs)) kvs))
   \<or> sort_extensions_in_place F fp = fp"
  unfolding sort_extensions_in_place_def
  by (simp split: jsval.splits)

lemma sort_extensions_in_place_cases:
  obtains (sorted) kvs wkvs xs where "fp = JObj kvs" "get_field fp ''webgl'' = JObj wkvs"
      "get_field (JObj wkvs) ''extensions'' = JArr xs"
      "sort_extensions_in_place F fp =
         JObj (put_own (js ''webgl'')
           (JObj (put_own (js ''extensions'') (JArr (Array_sort F xs)) wkvs)) kvs)"
    | (unchanged) "sort_extensions_in_place F fp = fp"
  using sort_extensions_in_place_disj [of fp F] by blast

lemma stableFeatures_after_sort:
  "AdvancedBrowserFingerprint_stableFeatures F (sort_extensions_in_place F fp) =
     AdvancedBrowserFingerprint_stableFeatures F fp"
proof (cases fp rule: sort_extensions_in_place_cases [of _ F])
  case unchanged
  then show ?thesis by simp
next
  case (sorted kvs wkvs xs)
  have webgl: "get_field (JObj kvs) ''webgl'' = JObj wkvs"
    using sorted by simp
  have ext: "get_field (JObj wkvs) ''extensions'' = JArr xs"
    using sorted by simp
  show ?thesis
    unfolding sorted(4) unfolding sorted(1) AdvancedBrowserFingerprint_stableFeatures_def
    by (simp add: get_field_put_own opt_field_JObj webgl ext js_or_JArr call_sort_def
        Array_sort_idem)
qed

lemma sort_extensions_in_place_idem:
  "sort_extensions_in_place F (sort_extensions_in_place F fp) = sort_extensions_in_place F fp"
proof (cases fp rule: sort_extensions_in_place_cases [of _ F])
  case unchanged
  then show ?thesis by simp
next
  case (sorted kvs wkvs xs)
  show ?thesis
    unfolding sorted(4)
    by (simp add: sort_extensions_in_place_def get_field_put_own put_own_twice Array_sort_idem)
qed

text \<open>
  C9. \<open>getHash\<close> called twice on one engine returns the same result both times: the first
  call may leave the extension list sorted in the fingerprint, and neither the result nor
  the state changes after that. The result is determined by the stable features alone:
  fingerprints with the same stable features have the same hash. (In the model the result
  is a function of the fingerprint and nothing else; the source reads no clock and no
  random source.)
\<close>

theorem getHash_twice:
  "fst (AdvancedBrowserFingerprint_getHash F (snd (AdvancedBrowserFingerprint_getHash F fp))) =
     fst (AdvancedBrowserFingerprint_getHash F fp)
   \<and> snd (AdvancedBrowserFingerprint_getHash F (snd (AdvancedBrowserFingerprint_getHash F fp))) =
     snd (AdvancedBrowserFingerprint_getHash F fp)
   \<and> (AdvancedBrowserFingerprint_stableFeatures F fp =
        AdvancedBrowserFingerprint_stableFeatures F fp' \<longrightarrow>
      fst (AdvancedBrowserFingerprint_getHash F fp) =
        fst (AdvancedBrowserFingerprint_getHash F fp'))"
  by (simp add: AdvancedBrowserFingerprint_getHash_def AdvancedBrowserFingerprint_canonical_def
      stableFeatures_after_sort sort_extensions_in_place_idem)


lemma sort_extensions_fingerprint_webgl:
  "sort_extensions_in_place F fingerprint_webgl = fingerprint_webgl_sorted"
  by (simp add: sort_extensions_in_place_def fingerprint_webgl_def fingerprint_webgl_sorted_def
      extensions_host_order_def get_field_def Array_sort_def) (simp add: js_def)

lemma stableFeatures_morning_evening:
  "AdvancedBrowserFingerprint_stableFeatures F fingerprint_morning =
     AdvancedBrowserFingerprint_stableFeatures F fingerprint_evening"
  by (rule stableFeatures_reads)
    (auto simp: fingerprint_morning_def fingerprint_evening_def get_field_def)

theorem getHash_twice_witness:
  "snd (AdvancedBrowserFingerprint_getHash no_fractions fingerprint_webgl) = fingerprint_webgl_sorted
   \<and> fingerprint_webgl_sorted \<noteq> fingerprint_webgl
   \<and> fst (AdvancedBrowserFingerprint_getHash no_fractions fingerprint_webgl_sorted) =
       fst (AdvancedBrowserFingerprint_getHash no_fractions fingerprint_webgl)
   \<and> AdvancedBrowserFingerprint_stableFeatures no_fractions fingerprint_morning =
       AdvancedBrowserFingerprint_stableFeatures no_fractions fingerprint_evening
   \<and> fingerprint_morning \<noteq> fingerprint_evening
   \<and> fst (AdvancedBrowserFingerprint_getHash no_fractions fingerprint_morning) =
       fst (AdvancedBrowserFingerprint_getHash no_fractions fingerprint_evening)"
proof -
  have state: "snd (AdvancedBrowserFingerprint_getHash no_fractions fingerprint_webgl) =
      fingerprint_webgl_sorted"
    by (simp add: AdvancedBrowserFingerprint_getHash_def sort_extensions_fingerprint_webgl)
  have "fingerprint_webgl_sorted \<noteq> fingerprint_webgl"
    by (simp add: fingerprint_webgl_def fingerprint_webgl_sorted_def extensions_host_order_def)
  moreover have "fingerprint_morning \<noteq> fingerprint_evening"
    by (simp add: fingerprint_morning_def fingerprint_evening_def)
  ultimately show ?thesis
    using getHash_twice [of no_fractions fingerprint_webgl fingerprint_webgl]
      getHash_twice [of no_fractions fingerprint_morning fingerprint_evening]
      stableFeatures_morning_evening [of no_fractions] state
    by simp
qed

section \<open>Lists in the canonical string\<close>

lemma font_features_cong:
  assumes "mset as = mset bs"
  shows "map (\<lambda>f. JStr (js ''font:'' @ ToString F f)) (Array_sort F as) =
    map (\<lambda>f. JStr (js ''font:'' @ ToString F f)) (Array_sort F bs)"
proof -
  have "map (\<lambda>s. JStr (js ''font:'' @ s)) (map (ToString F) (Array_sort F as)) =
      map (\<lambda>s. JStr (js ''font:'' @ s)) (map (ToString F) (Array_sort F bs))"
    using map_ToString_Array_sort_cong [OF assms, of F] by (rule arg_cong)
  then show ?thesis
    by (simp only: map_map comp_def)
qed

lemma stableFeatures_with_extensions:
  assumes "mset xs = mset ys" and "JNull \<notin> set xs"
  shows "AdvancedBrowserFingerprint_stableFeatures F (with_extensions xs webgl fp) =
    AdvancedBrowserFingerprint_stableFeatures F (with_extensions ys webgl fp)"
proof -
  have "Array_join F (js '','') (Array_sort F xs) = Array_join F (js '','') (Array_sort F ys)"
    using assms by (rule Array_join_Array_sort_cong)
  then show ?thesis
    unfolding AdvancedBrowserFingerprint_stableFeatures_def with_extensions_def
    by (simp add: get_field_put_own opt_field_JObj js_or_JArr call_sort_def call_join_def)
qed


lemma features_with_fonts:
  assumes "length fs = length gs" and "mset (take 10 fs) = mset (take 10 gs)"
  shows "AdvancedCSSFingerprint_features F (with_fonts fs results) =
    AdvancedCSSFingerprint_features F (with_fonts gs results)"
proof -
  have len: "opt_field (JArr fs) ''length'' = opt_field (JArr gs) ''length''"
    using assms(1) by (simp add: opt_field_def optdot_def)
  have fonts: "map (\<lambda>f. JStr (js ''font:'' @ ToString F f)) (Array_sort F (take 10 fs)) =
      map (\<lambda>f. JStr (js ''font:'' @ ToString F f)) (Array_sort F (take 10 gs))"
    using assms(2) by (rule font_features_cong)
  show ?thesis
    unfolding AdvancedCSSFingerprint_features_def with_fonts_def
    by (simp add: get_field_put_own js_or_JArr call_slice_def call_sort_def len fonts)
qed


text \<open>
  C3, as amended. Permuting the list of supported extensions \<open>webgl.extensions\<close> (a list
  with no \<open>null\<close> entry) leaves the canonical string of \<open>AdvancedBrowserFingerprint\<close>,
  and so the hash, unchanged: the list is sorted before it is joined. The canonical string
  of \<open>AdvancedCSSFingerprint\<close> depends on the list of detected fonts through its length
  and the multiset of its first ten entries (\<open>slice(0, 10)\<close> comes before \<open>sort()\<close>), so
  every permutation of a list of at most ten fonts leaves it unchanged.
\<close>

theorem sorted_lists_permutation:
  "(mset xs = mset ys \<and> JNull \<notin> set xs \<longrightarrow>
      AdvancedBrowserFingerprint_canonical F (with_extensions xs webgl fp) =
        AdvancedBrowserFingerprint_canonical F (with_extensions ys webgl fp)
      \<and> fst (AdvancedBrowserFingerprint_getHash F (with_extensions xs webgl fp)) =
        fst (AdvancedBrowserFingerprint_getHash F (with_extensions ys webgl fp)))
   \<and> (length fs = length gs \<and> mset (take 10 fs) = mset (take 10 gs) \<longrightarrow>
      AdvancedCSSFingerprint_canonical F (with_fonts fs results) =
        AdvancedCSSFingerprint_canonical F (with_fonts gs results)
      \<and> AdvancedCSSFingerprint_getHash F (with_fonts fs results) =
        AdvancedCSSFingerprint_getHash F (with_fonts gs results))"
proof (intro conjI impI)
  assume "mset xs = mset ys \<and> JNull \<notin> set xs"
  then have "mset xs = mset ys" and "JNull \<notin> set xs"
    by blast+
  then have "AdvancedBrowserFingerprint_stableFeatures F (with_extensions xs webgl fp) =
      AdvancedBrowserFingerprint_stableFeatures F (with_extensions ys webgl fp)"
    by (rule stableFeatures_with_extensions)
  then show "AdvancedBrowserFingerprint_canonical F (with_extensions xs webgl fp) =
        AdvancedBrowserFingerprint_canonical F (with_extensions ys webgl fp)"
    and "fst (AdvancedBrowserFingerprint_getHash F (with_extensions xs webgl fp)) =
        fst (AdvancedBrowserFingerprint_getHash F (with_extensions ys webgl fp))"
    by (simp_all add: AdvancedBrowserFingerprint_getHash_def
        AdvancedBrowserFingerprint_canonical_def)
next
  assume "length fs = length gs \<and> mset (take 10 fs) = mset (take 10 gs)"
  then have "length fs = length gs" and "mset (take 10 fs) = mset (take 10 gs)"
    by blast+
  then have "AdvancedCSSFingerprint_features F (with_fonts fs results) =
      AdvancedCSSFingerprint_features F (with_fonts gs results)"
    by (rule features_with_fonts)
  then show "AdvancedCSSFingerprint_canonical F (with_fonts fs results) =
        AdvancedCSSFingerprint_canonical F (with_fonts gs results)"
    and "AdvancedCSSFingerprint_getHash F (with_fonts fs results) =
        AdvancedCSSFingerprint_getHash F (with_fonts gs results)"
    by (simp_all add: AdvancedCSSFingerprint_getHash_def AdvancedCSSFingerprint_canonical_def)
qed


theorem sorted_lists_permutation_witness:
  "mset extensions_host_order = mset extensions_other_order
   \<and> extensions_host_order \<noteq> extensions_other_order
   \<and> JNull \<notin> set extensions_host_order
   \<and> AdvancedBrowserFingerprint_canonical no_fractions (with_extensions extensions_host_order [] []) =
       AdvancedBrowserFingerprint_canonical no_fractions (with_extensions extensions_other_order [] [])
   \<and> length fonts_3 = length fonts_3_reversed
   \<and> mset (take 10 fonts_3) = mset (take 10 fonts_3_reversed)
   \<and> fonts_3 \<noteq> fonts_3_reversed
   \<and> AdvancedCSSFingerprint_canonical no_fractions (with_fonts fonts_3 []) =
       AdvancedCSSFingerprint_canonical no_fractions (with_fonts fonts_3_reversed [])"
proof -
  have ext: "mset extensions_host_order = mset extensions_other_order"
    "extensions_host_order \<noteq> extensions_other_order" "JNull \<notin> set extensions_host_order"
    by (simp_all add: extensions_host_order_def extensions_other_order_def)
  have fonts: "length fonts_3 = length fonts_3_reversed"
    "mset (take 10 fonts_3) = mset (take 10 fonts_3_reversed)" "fonts_3 \<noteq> fonts_3_reversed"
    by (simp_all add: fonts_3_def fonts_3_reversed_def)
  from ext fonts show ?thesis
    using sorted_lists_permutation [of extensions_host_order extensions_other_order
        no_fractions "[]" "[]" fonts_3 fonts_3_reversed "[]"]
    by blast
qed

lemma canonical_fonts_11:
  "AdvancedCSSFingerprint_canonical F results_fonts_11 = Inr (js ''fonts:11|colorScheme:undefined|reducedMotion:undefined|contrast:undefined|forcedColors:undefined|invertedColors:undefined|orientation:undefined|pointer:undefined|hover:undefined|displayMode:undefined|resolution:undefinedxundefined|dpr:undefined|colorGamut:undefined|dynamicRange:undefined|monochrome:undefined|grid:undefined|update:undefined|font:Arial|font:Arial Black|font:Calibri|font:Cambria|font:Candara|font:Comic Sans MS|font:Consolas|font:Constantia|font:Corbel|font:Courier New'')"
  by (simp add: AdvancedCSSFingerprint_canonical_def AdvancedCSSFingerprint_features_def
      results_fonts_11_def fonts_11_def value_eval)

lemma canonical_fonts_11_exchanged:
  "AdvancedCSSFingerprint_canonical F results_fonts_11_exchanged = Inr (js ''fonts:11|colorScheme:undefined|reducedMotion:undefined|contrast:undefined|forcedColors:undefined|invertedColors:undefined|orientation:undefined|pointer:undefined|hover:undefined|displayMode:undefined|resolution:undefinedxundefined|dpr:undefined|colorGamut:undefined|dynamicRange:undefined|monochrome:undefined|grid:undefined|update:undefined|font:Arial|font:Arial Black|font:Calibri|font:Cambria|font:Candara|font:Comic Sans MS|font:Consolas|font:Constantia|font:Corbel|font:Georgia'')"
  by (simp add: AdvancedCSSFingerprint_canonical_def AdvancedCSSFingerprint_features_def
      results_fonts_11_exchanged_def fonts_11_exchanged_def value_eval)

lemma hash_fonts_11: "hash_string (js ''fonts:11|colorScheme:undefined|reducedMotion:undefined|contrast:undefined|forcedColors:undefined|invertedColors:undefined|orientation:undefined|pointer:undefined|hover:undefined|displayMode:undefined|resolution:undefinedxundefined|dpr:undefined|colorGamut:undefined|dynamicRange:undefined|monochrome:undefined|grid:undefined|update:undefined|font:Arial|font:Arial Black|font:Calibri|font:Cambria|font:Candara|font:Comic Sans MS|font:Consolas|font:Constantia|font:Corbel|font:Courier New'') = js ''539b05c6''"
  by (simp add: hash_eval)

lemma hash_fonts_11_exchanged: "hash_string (js ''fonts:11|colorScheme:undefined|reducedMotion:undefined|contrast:undefined|forcedColors:undefined|invertedColors:undefined|orientation:undefined|pointer:undefined|hover:undefined|displayMode:undefined|resolution:undefinedxundefined|dpr:undefined|colorGamut:undefined|dynamicRange:undefined|monochrome:undefined|grid:undefined|update:undefined|font:Arial|font:Arial Black|font:Calibri|font:Cambria|font:Candara|font:Comic Sans MS|font:Consolas|font:Constantia|font:Corbel|font:Georgia'') = js ''36571401''"
  by (simp add: hash_eval)

lemma canonical_en_de:
  "AdvancedBrowserFingerprint_canonical F fingerprint_en_de = Inr (js ''webgl:undefined|webgl_vendor:undefined||||audio:|audio_sr:|audio_ch:|canvas:|hw_cores:|hw_mem:|screen:undefinedxundefined|screen_depth:undefined|screen_dpr:undefined|tz:|tz_offset:|lang:en-US,de|math_tan:|math_sin:|math_acos:|{}|platform:|vendor:|touch:0|speech:0|plugins:0|error:|rect:x'')"
  by (simp add: AdvancedBrowserFingerprint_canonical_def
      AdvancedBrowserFingerprint_stableFeatures_def fingerprint_en_de_def value_eval)

lemma canonical_de_en:
  "AdvancedBrowserFingerprint_canonical F fingerprint_de_en = Inr (js ''webgl:undefined|webgl_vendor:undefined||||audio:|audio_sr:|audio_ch:|canvas:|hw_cores:|hw_mem:|screen:undefinedxundefined|screen_depth:undefined|screen_dpr:undefined|tz:|tz_offset:|lang:de,en-US|math_tan:|math_sin:|math_acos:|{}|platform:|vendor:|touch:0|speech:0|plugins:0|error:|rect:x'')"
  by (simp add: AdvancedBrowserFingerprint_canonical_def
      AdvancedBrowserFingerprint_stableFeatures_def fingerprint_de_en_def value_eval)

lemma hash_en_de: "hash_string (js ''webgl:undefined|webgl_vendor:undefined||||audio:|audio_sr:|audio_ch:|canvas:|hw_cores:|hw_mem:|screen:undefinedxundefined|screen_depth:undefined|screen_dpr:undefined|tz:|tz_offset:|lang:en-US,de|math_tan:|math_sin:|math_acos:|{}|platform:|vendor:|touch:0|speech:0|plugins:0|error:|rect:x'') = js ''ce39c5e3''"
  by (simp add: hash_eval)

lemma hash_de_en: "hash_string (js ''webgl:undefined|webgl_vendor:undefined||||audio:|audio_sr:|audio_ch:|canvas:|hw_cores:|hw_mem:|screen:undefinedxundefined|screen_depth:undefined|screen_dpr:undefined|tz:|tz_offset:|lang:de,en-US|math_tan:|math_sin:|math_acos:|{}|platform:|vendor:|touch:0|speech:0|plugins:0|error:|rect:x'') = js ''a66ae623''"
  by (simp add: hash_eval)

text \<open>
  C3 as stated fails for other lists. Exchanging the tenth and the eleventh of eleven
  detected fonts changes the ten fonts that are kept, and the hash; the language list is
  joined as the host gives it, so \<open>en-US, de\<close> and \<open>de, en-US\<close> hash differently.
\<close>

theorem unsorted_lists_change_hash:
  "mset fonts_11 = mset fonts_11_exchanged
   \<and> AdvancedCSSFingerprint_getHash no_fractions results_fonts_11 = Inr (js ''539b05c6'')
   \<and> AdvancedCSSFingerprint_getHash no_fractions results_fonts_11_exchanged = Inr (js ''36571401'')
   \<and> mset [JStr (js ''en-US''), JStr (js ''de'')] = mset [JStr (js ''de''), JStr (js ''en-US'')]
   \<and> fst (AdvancedBrowserFingerprint_getHash no_fractions fingerprint_en_de) = Inr (js ''ce39c5e3'')
   \<and> fst (AdvancedBrowserFingerprint_getHash no_fractions fingerprint_de_en) = Inr (js ''a66ae623'')"
proof (intro conjI)
  show "mset fonts_11 = mset fonts_11_exchanged"
    by (simp add: fonts_11_def fonts_11_exchanged_def)
  show "AdvancedCSSFingerprint_getHash no_fractions results_fonts_11 = Inr (js ''539b05c6'')"
    by (simp add: AdvancedCSSFingerprint_getHash_def canonical_fonts_11 hash_fonts_11)
  show "AdvancedCSSFingerprint_getHash no_fractions results_fonts_11_exchanged =
      Inr (js ''36571401'')"
    by (simp add: AdvancedCSSFingerprint_getHash_def canonical_fonts_11_exchanged
        hash_fonts_11_exchanged)
  show "mset [JStr (js ''en-US''), JStr (js ''de'')] = mset [JStr (js ''de''), JStr (js ''en-US'')]"
    by simp
  show "fst (AdvancedBrowserFingerprint_getHash no_fractions fingerprint_en_de) =
      Inr (js ''ce39c5e3'')"
    by (simp add: AdvancedBrowserFingerprint_getHash_def canonical_en_de hash_en_de)
  show "fst (AdvancedBrowserFingerprint_getHash no_fractions fingerprint_de_en) =
      Inr (js ''a66ae623'')"
    by (simp add: AdvancedBrowserFingerprint_getHash_def canonical_de_en hash_de_en)
qed

end
